theory Spec2Isabelle
  imports Complex_Main "HOL-Library.Multiset"
begin

section \<open>Food recognition and nutrition estimation (the \<open>food-recognition\<close> edge function)\<close>

text \<open>
  The development embeds the edge function of \<^verbatim>\<open>src/unnamed/part_005\<close>: the two
  reference tables, \<^verbatim>\<open>getPortionFromArea\<close>, \<^verbatim>\<open>calculateNutrition\<close>,
  \<^verbatim>\<open>mockCNNDetection\<close>, \<^verbatim>\<open>runCNNDetection\<close> and the request handler passed to
  \<^verbatim>\<open>serve\<close>.

  Conventions of the embedding.
  \<^item> A JavaScript number is an IEEE-754 double: \<^verbatim>\<open>NaN\<close>, an infinity, or a finite value,
    which is a rational. A decimal literal of the source stands for the double nearest to
    it, and each addition, multiplication and division rounds its exact result to the
    nearest double, a tie going to the even significand. The sign of zero is not modelled.
  \<^item> A string is a list of characters with codes 0 to 255, read as the code points
    \<^verbatim>\<open>U+0000\<close> to \<^verbatim>\<open>U+00FF\<close>; labels with other code points are outside the type.
  \<^item> An object literal is an association list in insertion order. Reading a property
    that is not its own continues in \<^verbatim>\<open>Object.prototype\<close>, as the Deno runtime of the
    function furnishes it.
  \<^item> A thrown exception is the left summand of a sum type. The wording of an error that
    the engine raises is not part of the source: its message is a value of its own.
\<close>

subsection \<open>Numbers\<close>

datatype jsnum = Num rat | PosInfinity | NegInfinity | NaN

text \<open>
  Rounding to binary64. \<open>bitlen n\<close> is the number of binary digits of a positive integer,
  \<open>ilog2 x\<close> the exponent \<open>e\<close> with \<open>2^e \<le> x < 2^(e+1)\<close> of a positive rational, and
  \<open>pow2 e\<close> the power \<open>2^e\<close>. The doubles of exponent \<open>e\<close> are the multiples of
  \<open>2^(e-52)\<close>; below \<open>2^(-1022)\<close> the spacing stays \<open>2^(-1074)\<close> (subnormal numbers).
  \<open>dbl x\<close> is the multiple nearest to \<open>x\<close>, a tie going to the even one, and \<open>fl x\<close>
  the result of an operation whose exact value is \<open>x\<close>: it overflows to an infinity from
  \<open>2^1024\<close> on.
\<close>

function bitlen :: "int \<Rightarrow> nat" where
  "bitlen n = (if n \<le> 0 then 0 else Suc (bitlen (n div 2)))"
  by pat_completeness auto
termination
  by (relation "measure nat") auto

declare bitlen.simps [simp del]

definition pow2 :: "int \<Rightarrow> rat" where
  "pow2 e = (if 0 \<le> e then 2 ^ nat e else 1 / 2 ^ nat (- e))"

definition ilog2 :: "rat \<Rightarrow> int" where
  "ilog2 x = (if 1 \<le> x then int (bitlen \<lfloor>x\<rfloor>) - 1 else - int (bitlen (\<lceil>1 / x\<rceil> - 1)))"

definition round_half_even :: "rat \<Rightarrow> int" where
  "round_half_even q =
     (let n = \<lfloor>q\<rfloor>; r = q - of_int n
      in if r < 1 / 2 then n else if 1 / 2 < r then n + 1 else if even n then n else n + 1)"

definition dbl :: "rat \<Rightarrow> rat" where
  "dbl x =
     (if x = 0 then 0
      else let e = max (ilog2 \<bar>x\<bar>) (- 1022); u = pow2 (e - 52)
           in sgn x * of_int (round_half_even (\<bar>x\<bar> / u)) * u)"

definition fl :: "rat \<Rightarrow> jsnum" where
  "fl x =
     (let y = dbl x
      in if 2 ^ 1024 \<le> y then PosInfinity
         else if y \<le> - (2 ^ 1024) then NegInfinity
         else Num y)"

fun js_sgn :: "jsnum \<Rightarrow> int" where
  "js_sgn (Num a) = (if a < 0 then - 1 else if a = 0 then 0 else 1)"
| "js_sgn PosInfinity = 1"
| "js_sgn NegInfinity = - 1"
| "js_sgn NaN = 0"

definition js_inf :: "int \<Rightarrow> jsnum" where
  "js_inf s = (if s = 0 then NaN else if 0 < s then PosInfinity else NegInfinity)"

text \<open>\<^verbatim>\<open>a + b\<close>\<close>

fun js_plus :: "jsnum \<Rightarrow> jsnum \<Rightarrow> jsnum" where
  "js_plus (Num a) (Num b) = fl (a + b)"
| "js_plus NaN _ = NaN"
| "js_plus _ NaN = NaN"
| "js_plus PosInfinity NegInfinity = NaN"
| "js_plus NegInfinity PosInfinity = NaN"
| "js_plus (Num a) b = b"
| "js_plus a _ = a"

text \<open>\<^verbatim>\<open>a * b\<close>\<close>

fun js_times :: "jsnum \<Rightarrow> jsnum \<Rightarrow> jsnum" where
  "js_times (Num a) (Num b) = fl (a * b)"
| "js_times NaN _ = NaN"
| "js_times _ NaN = NaN"
| "js_times a b = js_inf (js_sgn a * js_sgn b)"

text \<open>\<^verbatim>\<open>a / b\<close> (a zero divisor is the positive zero: the code never negates)\<close>

fun js_divide :: "jsnum \<Rightarrow> jsnum \<Rightarrow> jsnum" where
  "js_divide (Num a) (Num b) = (if b = 0 then js_inf (js_sgn (Num a)) else fl (a / b))"
| "js_divide NaN _ = NaN"
| "js_divide _ NaN = NaN"
| "js_divide (Num a) _ = Num 0"
| "js_divide a (Num b) = js_inf (js_sgn a * (if b < 0 then - 1 else 1))"
| "js_divide _ _ = NaN"

text \<open>\<^verbatim>\<open>a < b\<close>: every comparison with \<^verbatim>\<open>NaN\<close> is false.\<close>

fun js_less :: "jsnum \<Rightarrow> jsnum \<Rightarrow> bool" where
  "js_less (Num a) (Num b) = (a < b)"
| "js_less NaN _ = False"
| "js_less _ NaN = False"
| "js_less NegInfinity b = (b \<noteq> NegInfinity)"
| "js_less a PosInfinity = (a \<noteq> PosInfinity)"
| "js_less _ _ = False"

text \<open>
  \<^verbatim>\<open>Math.round\<close>: the nearest integer, a tie going to the larger one. The result is
  exact: a double with a fractional part is below \<open>2^52\<close>.
\<close>

fun Math_round :: "jsnum \<Rightarrow> jsnum" where
  "Math_round (Num a) = Num (of_int \<lfloor>a + 1 / 2\<rfloor>)"
| "Math_round a = a"

text \<open>\<^verbatim>\<open>Math.max(...xs)\<close>: \<^verbatim>\<open>-Infinity\<close> for no argument, \<^verbatim>\<open>NaN\<close> as soon as one is.\<close>

fun js_max :: "jsnum \<Rightarrow> jsnum \<Rightarrow> jsnum" where
  "js_max NaN _ = NaN"
| "js_max _ NaN = NaN"
| "js_max a b = (if js_less a b then b else a)"

definition Math_max :: "jsnum list \<Rightarrow> jsnum" where
  "Math_max xs = foldl js_max NegInfinity xs"

text \<open>
  The decimal digits of a count, as a template literal prints an array length
  (\<^verbatim>\<open>`${count} pieces`\<close>).
\<close>

fun numberToString :: "nat \<Rightarrow> string" where
  "numberToString n =
     (if n < 10 then [''0123456789'' ! n]
      else numberToString (n div 10) @ [''0123456789'' ! (n mod 10)])"

declare numberToString.simps [simp del]

subsection \<open>Strings\<close>

text \<open>
  Among the code points up to \<^verbatim>\<open>U+00FF\<close>, \<^verbatim>\<open>toLowerCase\<close> changes \<open>A\<close> to \<open>Z\<close> and the
  capital letters \<^verbatim>\<open>U+00C0\<close> to \<^verbatim>\<open>U+00DE\<close> (the multiplication sign \<^verbatim>\<open>U+00D7\<close> is none),
  each to the letter 32 places further, and the class \<^verbatim>\<open>\s\<close> holds tab, line feed,
  vertical tab, form feed, carriage return, space and the no-break space \<^verbatim>\<open>U+00A0\<close>.
\<close>

definition upperCase :: string where
  "upperCase =
     ''ABCDEFGHIJKLMNOPQRSTUVWXYZ'' @
     [CHR 0xC0, CHR 0xC1, CHR 0xC2, CHR 0xC3, CHR 0xC4, CHR 0xC5, CHR 0xC6, CHR 0xC7, CHR 0xC8, CHR 0xC9,
      CHR 0xCA, CHR 0xCB, CHR 0xCC, CHR 0xCD, CHR 0xCE, CHR 0xCF, CHR 0xD0, CHR 0xD1, CHR 0xD2, CHR 0xD3,
      CHR 0xD4, CHR 0xD5, CHR 0xD6, CHR 0xD8, CHR 0xD9, CHR 0xDA, CHR 0xDB, CHR 0xDC, CHR 0xDD, CHR 0xDE]"

definition lowerCase :: string where
  "lowerCase =
     ''abcdefghijklmnopqrstuvwxyz'' @
     [CHR 0xE0, CHR 0xE1, CHR 0xE2, CHR 0xE3, CHR 0xE4, CHR 0xE5, CHR 0xE6, CHR 0xE7, CHR 0xE8, CHR 0xE9,
      CHR 0xEA, CHR 0xEB, CHR 0xEC, CHR 0xED, CHR 0xEE, CHR 0xEF, CHR 0xF0, CHR 0xF1, CHR 0xF2, CHR 0xF3,
      CHR 0xF4, CHR 0xF5, CHR 0xF6, CHR 0xF8, CHR 0xF9, CHR 0xFA, CHR 0xFB, CHR 0xFC, CHR 0xFD, CHR 0xFE]"

definition toLowerChar :: "char \<Rightarrow> char" where
  "toLowerChar c = (case map_of (zip upperCase lowerCase) c of Some l \<Rightarrow> l | None \<Rightarrow> c)"

definition toLowerCase :: "string \<Rightarrow> string" where
  "toLowerCase s = map toLowerChar s"

definition isSpace :: "char \<Rightarrow> bool" where
  "isSpace c \<longleftrightarrow>
     c \<in> set [CHR 0x09, CHR 0x0A, CHR 0x0B, CHR 0x0C, CHR 0x0D, CHR '' '', CHR 0xA0]"

text \<open>\<^verbatim>\<open>s.replace(/\s+/g, '_')\<close>: every maximal run of white space becomes one underscore.\<close>

function replaceSpaces :: "string \<Rightarrow> string" where
  "replaceSpaces [] = []"
| "replaceSpaces (c # cs) =
     (if isSpace c then CHR ''_'' # replaceSpaces (dropWhile isSpace cs)
      else c # replaceSpaces cs)"
  by pat_completeness auto
termination
  by (relation "measure length") (auto simp: length_dropWhile_le less_Suc_eq_le)

declare replaceSpaces.simps [simp del]

subsection \<open>Objects used as dictionaries\<close>

text \<open>
  The own properties of \<^verbatim>\<open>Object.prototype\<close> in Deno, which removes the accessor
  \<^verbatim>\<open>__proto__\<close>. Every object literal of the source inherits them, so \<^verbatim>\<open>obj[key]\<close> with one
  of these keys is a function (truthy, and \<^verbatim>\<open>NaN\<close> as a number) unless \<^verbatim>\<open>obj\<close> has a
  property of that name itself.
\<close>

definition Object_prototype :: "string list" where
  "Object_prototype =
     [''constructor'', ''__defineGetter__'', ''__defineSetter__'', ''hasOwnProperty'',
      ''__lookupGetter__'', ''__lookupSetter__'', ''isPrototypeOf'', ''propertyIsEnumerable'',
      ''toString'', ''valueOf'', ''toLocaleString'']"

datatype 'a property = Own 'a | Inherited | Undefined

definition getProperty :: "(string \<times> 'a) list \<Rightarrow> string \<Rightarrow> 'a property" where
  "getProperty obj key =
     (case map_of obj key of
        Some v \<Rightarrow> Own v
      | None \<Rightarrow> if key \<in> set Object_prototype then Inherited else Undefined)"

text \<open>\<^verbatim>\<open>obj[key] = v\<close>: an own property keeps its place, a new one goes last.\<close>

fun setProperty :: "(string \<times> 'a) list \<Rightarrow> string \<Rightarrow> 'a \<Rightarrow> (string \<times> 'a) list" where
  "setProperty [] key v = [(key, v)]"
| "setProperty ((k, w) # ps) key v =
     (if k = key then (key, v) # ps else (k, w) # setProperty ps key v)"

subsection \<open>Records of the source\<close>

text \<open>
  One element of the detector's answer, \<^verbatim>\<open>{food_name, confidence, area_ratio}\<close>, with a
  string as its label. The two other fields are taken as numbers: a field that is absent
  is \<^verbatim>\<open>NaN\<close> in the sum and in the maximum that the handler computes from it. Strings in
  these two fields are outside the model.
\<close>

record Detection =
  food_name :: string
  confidence :: jsnum
  area_ratio :: jsnum

record FoodItem =
  name :: string
  portion_size :: string
  portion_grams :: jsnum
  calories :: jsnum
  protein :: jsnum
  carbs :: jsnum
  fat :: jsnum
  confidence :: jsnum

subsection \<open>The reference tables\<close>

record NutritionProfile =
  calories_per_100g :: rat
  carbs_g :: rat
  protein_g :: rat
  fat_g :: rat
  gi_value :: rat
  gi_category :: string

text \<open>
  One entry of the table. The arguments are the literals of the source, the fields the
  doubles that they denote.
\<close>

definition profile :: "rat \<Rightarrow> rat \<Rightarrow> rat \<Rightarrow> rat \<Rightarrow> rat \<Rightarrow> string \<Rightarrow> NutritionProfile" where
  "profile cal c p f gi cat =
     \<lparr>calories_per_100g = dbl cal, carbs_g = dbl c, protein_g = dbl p, fat_g = dbl f,
      gi_value = dbl gi, gi_category = cat\<rparr>"

definition NUTRITION_DATA :: "(string \<times> NutritionProfile) list" where
  "NUTRITION_DATA =
    [(''bhatura'', profile 330 50 7 12 70 ''High''),
     (''chapathi'', profile 299 46 7.9 9.2 45 ''Low''),
     (''cooked_rice'', profile 130 28 2.7 0.3 72 ''High''),
     (''dal'', profile 116 20 9 1 30 ''Low''),
     (''dosa'', profile 168 30 4 3.7 55 ''Medium''),
     (''egg_curry'', profile 155 4 11 11 45 ''Low''),
     (''groundnut_chutney'', profile 250 16 8 18 25 ''Low''),
     (''idiyappam'', profile 150 32 2 0.5 65 ''Medium''),
     (''idli'', profile 58 12 2 0.4 60 ''Medium''),
     (''jalebi'', profile 459 60 4 22 75 ''High''),
     (''lemon_rice'', profile 185 28 4 6 60 ''Medium''),
     (''pongal'', profile 160 27 5 4 60 ''Medium''),
     (''pulihora'', profile 180 30 4 6 60 ''Medium''),
     (''sambar'', profile 90 12 4 3 35 ''Low''),
     (''samosa'', profile 320 35 7 18 70 ''High''),
     (''umpa'', profile 190 35 4 6 65 ''Medium''),
     (''uttampam'', profile 170 28 4 4 55 ''Medium''),
     (''vada'', profile 320 35 7 18 70 ''High''),
     (''beetroot'', profile 43 10 1.6 0.2 64 ''Medium''),
     (''brinjal'', profile 25 6 1 0.2 15 ''Low''),
     (''capsicum'', profile 31 6 1 0.3 15 ''Low''),
     (''carrot'', profile 41 10 0.9 0.2 35 ''Low''),
     (''cucumber'', profile 15 3.6 0.7 0.1 15 ''Low''),
     (''groundnuts'', profile 567 16 26 49 14 ''Low''),
     (''ladys_finger'', profile 33 7 1.9 0.2 20 ''Low''),
     (''onion'', profile 40 9 1.1 0.1 10 ''Low''),
     (''paneer'', profile 265 1.2 18 20 27 ''Low''),
     (''raw_rice'', profile 365 80 7.5 0.7 0 ''Low''),
     (''spinach'', profile 23 3.6 2.9 0.4 15 ''Low''),
     (''tomato'', profile 18 3.9 0.9 0.2 15 ''Low'')]"

definition COUNTABLE_FOODS :: "(string \<times> rat) list" where
  "COUNTABLE_FOODS =
    [(''idli'', 40), (''vada'', 70), (''dosa'', 120), (''chapathi'', 45), (''samosa'', 100),
     (''bhatura'', 100), (''jalebi'', 60), (''idiyappam'', 50), (''uttampam'', 100)]"

definition PORTION_GRAMS :: "(string \<times> rat) list" where
  "PORTION_GRAMS = [(''Small'', 75), (''Medium'', 100), (''Large'', 150), (''Very Large'', 200)]"

text \<open>
  The numbers of these two tables are integers, which are doubles as they stand.
\<close>

text \<open>A property read where a number is expected: \<^verbatim>\<open>undefined\<close> and objects are \<^verbatim>\<open>NaN\<close>.\<close>

fun toNumber :: "rat property \<Rightarrow> jsnum" where
  "toNumber (Own v) = Num v"
| "toNumber _ = NaN"

text \<open>The truth value of \<^verbatim>\<open>obj[key]\<close> for a table of numbers.\<close>

fun truthy :: "rat property \<Rightarrow> bool" where
  "truthy (Own v) = (v \<noteq> 0)"
| "truthy Inherited = True"
| "truthy Undefined = False"

subsection \<open>The portion model and the estimator\<close>

text \<open>
  The three literals of \<^verbatim>\<open>getPortionFromArea\<close>. The doubles of \<^verbatim>\<open>0.25\<close> and \<^verbatim>\<open>0.50\<close> are
  these numbers themselves. The double of \<^verbatim>\<open>0.10\<close> is the least double above one tenth,
  so a double is below it exactly when it is below one tenth (\<open>below_tenth\<close> in the
  auxiliary facts): the comparison is written with the decimal number.
\<close>

definition getPortionFromArea :: "jsnum \<Rightarrow> string" where
  "getPortionFromArea areaRatio =
     (if js_less areaRatio (Num 0.10) then ''Small''
      else if js_less areaRatio (Num 0.25) then ''Medium''
      else if js_less areaRatio (Num 0.50) then ''Large''
      else ''Very Large'')"

text \<open>
  \<^verbatim>\<open>nutrition.calories_per_100g\<close> and its siblings, where \<^verbatim>\<open>nutrition\<close> is what
  \<^verbatim>\<open>NUTRITION_DATA[key]\<close> gave: an inherited value has none of the fields.
\<close>

fun field :: "(NutritionProfile \<Rightarrow> rat) \<Rightarrow> NutritionProfile property \<Rightarrow> jsnum" where
  "field f (Own p) = Num (f p)"
| "field f _ = NaN"

definition calculateNutrition :: "string \<Rightarrow> nat \<Rightarrow> jsnum \<Rightarrow> FoodItem" where
  "calculateNutrition foodName count' areaRatio =
     (let normalizedFoodName = replaceSpaces (toLowerCase foodName);
          nutrition = getProperty NUTRITION_DATA normalizedFoodName
      in if nutrition = Undefined then
           \<lparr>name = foodName, portion_size = ''1 portion'', portion_grams = Num 100,
            calories = Num 200, protein = Num 10, carbs = Num 30, fat = Num 5,
            confidence = Num (dbl 0.5)\<rparr>
         else
           let (portionGrams, portionSize) =
                 (if truthy (getProperty COUNTABLE_FOODS normalizedFoodName) then
                    (js_times (Num (of_nat count'))
                       (toNumber (getProperty COUNTABLE_FOODS normalizedFoodName)),
                     numberToString count' @ '' pieces'')
                  else
                    let portion = getPortionFromArea areaRatio
                    in (toNumber (getProperty PORTION_GRAMS portion), portion @ '' portion''));
               multiplier = js_divide portionGrams (Num 100)
           in \<lparr>name = foodName, portion_size = portionSize, portion_grams = portionGrams,
               calories = Math_round (js_times (field calories_per_100g nutrition) multiplier),
               protein =
                 js_divide
                   (Math_round (js_times (js_times (field protein_g nutrition) multiplier) (Num 10)))
                   (Num 10),
               carbs =
                 js_divide
                   (Math_round (js_times (js_times (field carbs_g nutrition) multiplier) (Num 10)))
                   (Num 10),
               fat =
                 js_divide
                   (Math_round (js_times (js_times (field fat_g nutrition) multiplier) (Num 10)))
                   (Num 10),
               confidence = Num (dbl 0.85)\<rparr>)"

subsection \<open>Exceptions\<close>

text \<open>
  The places where the runtime raises an error of its own: \<^verbatim>\<open>fetch\<close> rejecting,
  \<^verbatim>\<open>response.json()\<close> rejecting, \<^verbatim>\<open>result.success\<close> of \<^verbatim>\<open>null\<close>, the destructuring of
  \<^verbatim>\<open>null\<close> in line 184, \<^verbatim>\<open>detections.forEach\<close> that is no function in line 207,
  \<^verbatim>\<open>detection.food_name.toLowerCase()\<close> where there is no string in line 208, and \<^verbatim>\<open>push\<close>
  that is no function in line 212. Each of these errors is an instance of \<^verbatim>\<open>Error\<close>, and its
  message is worded by the runtime, not by the source: \<open>EngineText c\<close> is the message of
  the error raised at \<open>c\<close>, \<open>Text s\<close> a message known as the string \<open>s\<close>. \<open>Thrown\<close> is a
  thrown value that is no instance of \<^verbatim>\<open>Error\<close>.
\<close>

datatype cause = Fetch | ResponseJson | ResultSuccess | Destructuring | ForEach | FoodName | Push

datatype message = Text string | EngineText cause

datatype exception = Error message | Thrown

subsection \<open>The detector adapter\<close>

text \<open>
  What the detection service does with a request is an input of the model.
  \<^item> \<open>Rejected\<close>: \<^verbatim>\<open>fetch\<close> rejects (network error).
  \<^item> \<open>Answer ok body\<close>: a response with \<^verbatim>\<open>response.ok = ok\<close>; \<open>body\<close> is \<open>None\<close>
    when \<^verbatim>\<open>response.json()\<close> rejects.
  \<^item> \<open>ApiNull\<close>: the body is the JSON value \<^verbatim>\<open>null\<close>.
  \<^item> \<open>ApiObject success detections\<close>: any other body, with the truth value of
    \<^verbatim>\<open>result.success\<close> and with \<^verbatim>\<open>result.detections\<close>: \<open>None\<close> when it is missing or falsy,
    \<open>Some NotArray\<close> when it is truthy and no array (a number, a string, \<^verbatim>\<open>true\<close>, an
    object), \<open>Some (Array xs)\<close> when it is an array (an array is truthy, the empty one too).
  \<^item> An element of the array is \<open>Labelled d\<close> when it is an object whose \<^verbatim>\<open>food_name\<close> is a
    string, and \<open>Unreadable\<close> otherwise (\<^verbatim>\<open>null\<close>, a number, an object without a label or
    with a label that is no string).
\<close>

datatype element = Unreadable | Labelled Detection

datatype detections = NotArray | Array "element list"

datatype api_result = ApiNull | ApiObject bool "detections option"

datatype fetch_result = Rejected | Answer bool "api_result option"

definition mockCNNDetection :: "Detection list" where
  "mockCNNDetection =
     [\<lparr>food_name = ''Idli'', confidence = Num (dbl 0.92), area_ratio = Num (dbl 0.15)\<rparr>,
      \<lparr>food_name = ''Sambar'', confidence = Num (dbl 0.87), area_ratio = Num (dbl 0.35)\<rparr>,
      \<lparr>food_name = ''Chapathi'', confidence = Num (dbl 0.78), area_ratio = Num (dbl 0.20)\<rparr>]"

text \<open>The body of the \<^verbatim>\<open>try\<close> block of \<^verbatim>\<open>runCNNDetection\<close>.\<close>

definition runCNNDetection_try ::
  "(string \<Rightarrow> fetch_result) \<Rightarrow> string \<Rightarrow> exception + detections" where
  "runCNNDetection_try service img =
     (case service img of
        Rejected \<Rightarrow> Inl (Error (EngineText Fetch))
      | Answer ok body \<Rightarrow>
          if \<not> ok then Inr (Array (map Labelled mockCNNDetection))
          else
            (case body of
               None \<Rightarrow> Inl (Error (EngineText ResponseJson))
             | Some ApiNull \<Rightarrow> Inl (Error (EngineText ResultSuccess))
             | Some (ApiObject success detections) \<Rightarrow>
                 (case detections of
                    Some ds \<Rightarrow> if success then Inr ds else Inr (Array (map Labelled mockCNNDetection))
                  | None \<Rightarrow> Inr (Array (map Labelled mockCNNDetection)))))"

definition runCNNDetection :: "(string \<Rightarrow> fetch_result) \<Rightarrow> string \<Rightarrow> detections" where
  "runCNNDetection service img =
     (case runCNNDetection_try service img of
        Inl error \<Rightarrow> Array (map Labelled mockCNNDetection)
      | Inr detections \<Rightarrow> detections)"

subsection \<open>Grouping the detections\<close>

text \<open>
  \<^verbatim>\<open>groupedDetections\<close> maps a key to the array of the \<^verbatim>\<open>{confidence, area_ratio}\<close>
  of its detections, here pairs. One step of the first \<^verbatim>\<open>forEach\<close>: an element without a
  string as label raises in line 208; a key that the empty object inherits is truthy, no
  array is created, and \<^verbatim>\<open>push\<close> is not a function.
\<close>

type_synonym groups = "(string \<times> (jsnum \<times> jsnum) list) list"

definition addDetection :: "groups \<Rightarrow> element \<Rightarrow> exception + groups" where
  "addDetection groupedDetections detection =
     (case detection of
        Unreadable \<Rightarrow> Inl (Error (EngineText FoodName))
      | Labelled d \<Rightarrow>
          (let foodKey = toLowerCase (food_name d);
               entry = (Detection.confidence d, area_ratio d)
           in case getProperty groupedDetections foodKey of
                Undefined \<Rightarrow> Inr (setProperty groupedDetections foodKey ([] @ [entry]))
              | Own detections \<Rightarrow>
                  Inr (setProperty groupedDetections foodKey (detections @ [entry]))
              | Inherited \<Rightarrow> Inl (Error (EngineText Push))))"

fun groupDetections :: "groups \<Rightarrow> element list \<Rightarrow> exception + groups" where
  "groupDetections groupedDetections [] = Inr groupedDetections"
| "groupDetections groupedDetections (detection # detections) =
     (case addDetection groupedDetections detection of
        Inl error \<Rightarrow> Inl error
      | Inr grouped \<Rightarrow> groupDetections grouped detections)"

text \<open>
  \<^verbatim>\<open>Object.entries\<close> lists the keys that are array indices (canonical decimal numerals
  below \<open>2^32 - 1\<close>) first, in ascending numeric order, then the other keys in insertion
  order.
\<close>

definition digitValue :: "char \<Rightarrow> nat" where
  "digitValue c = length (takeWhile (\<lambda>d. d \<noteq> c) ''0123456789'')"

definition indexValue :: "string \<Rightarrow> nat" where
  "indexValue s = foldl (\<lambda>n c. 10 * n + digitValue c) 0 s"

definition isArrayIndex :: "string \<Rightarrow> bool" where
  "isArrayIndex s \<longleftrightarrow>
     s \<noteq> [] \<and> list_all (\<lambda>c. c \<in> set ''0123456789'') s \<and>
     (s = ''0'' \<or> take 1 s \<noteq> ''0'') \<and> indexValue s < 4294967295"

definition Object_entries :: "(string \<times> 'a) list \<Rightarrow> (string \<times> 'a) list" where
  "Object_entries obj =
     sort_key (\<lambda>p. indexValue (fst p)) (filter (\<lambda>p. isArrayIndex (fst p)) obj) @
     filter (\<lambda>p. \<not> isArrayIndex (fst p)) obj"

subsection \<open>One food item per group\<close>

text \<open>
  The three aggregates of a group, as the second \<^verbatim>\<open>forEach\<close> computes them, and the
  item it pushes: the estimator's item with its confidence overwritten. The sum of the
  confidences starts at zero and takes them in the order of the array. (The spread of a
  group into the arguments of \<^verbatim>\<open>Math.max\<close> is taken to succeed: the bound that the stack of
  the runtime puts on the number of arguments is not modelled.)
\<close>

record DetectionGroup =
  food_key :: string
  count :: nat
  avg_confidence :: jsnum
  max_area_ratio :: jsnum

definition avgConfidence :: "(jsnum \<times> jsnum) list \<Rightarrow> jsnum" where
  "avgConfidence detections =
     js_divide (foldl (\<lambda>sum d. js_plus sum (fst d)) (Num 0) detections)
       (Num (of_nat (length detections)))"

definition maxAreaRatio :: "(jsnum \<times> jsnum) list \<Rightarrow> jsnum" where
  "maxAreaRatio detections = Math_max (map snd detections)"

definition normalize_group :: "string \<times> (jsnum \<times> jsnum) list \<Rightarrow> DetectionGroup" where
  "normalize_group e =
     \<lparr>food_key = fst e, count = length (snd e), avg_confidence = avgConfidence (snd e),
      max_area_ratio = maxAreaRatio (snd e)\<rparr>"

definition estimate :: "DetectionGroup \<Rightarrow> FoodItem" where
  "estimate g =
     (let nutrition = calculateNutrition (food_key g) (count g) (max_area_ratio g)
      in nutrition\<lparr>confidence := avg_confidence g\<rparr>)"

text \<open>Lines 205 to 223: the groups with their aggregates, in the order of \<^verbatim>\<open>Object.entries\<close>.\<close>

definition normalize_detections :: "element list \<Rightarrow> exception + DetectionGroup list" where
  "normalize_detections detections =
     (case groupDetections [] detections of
        Inl error \<Rightarrow> Inl error
      | Inr groupedDetections \<Rightarrow> Inr (map normalize_group (Object_entries groupedDetections)))"

text \<open>
  Lines 205 to 229: the list \<^verbatim>\<open>foods\<close>. What the adapter returned is used as an array; when
  it is none, \<^verbatim>\<open>forEach\<close> is not a function.
\<close>

definition recognize :: "detections \<Rightarrow> exception + FoodItem list" where
  "recognize detections =
     (case detections of
        NotArray \<Rightarrow> Inl (Error (EngineText ForEach))
      | Array elements \<Rightarrow>
          (case normalize_detections elements of
             Inl error \<Rightarrow> Inl error
           | Inr gs \<Rightarrow> Inr (map estimate gs)))"

subsection \<open>The request handler\<close>

text \<open>
  The request: its method and what \<^verbatim>\<open>req.json()\<close> gives. \<open>NotJson m\<close>: the promise
  rejects with an error of message \<open>m\<close>; \<open>JsonNull\<close>: the value \<^verbatim>\<open>null\<close>, which cannot be
  destructured; \<open>JsonObject image\<close>: any other value, with its member \<^verbatim>\<open>image\<close>, which is
  \<open>None\<close> when it is missing, \<^verbatim>\<open>null\<close>, \<^verbatim>\<open>false\<close> or zero, and \<open>Some s\<close> when it is the
  string \<open>s\<close> (the empty string is falsy). A truthy member that is no string is sent on
  to the detector as it is, like a string, and is taken as one.
\<close>

datatype request_json = NotJson string | JsonNull | JsonObject "string option"

record Request =
  req_method :: string
  req_json :: request_json

text \<open>
  The body of a response: none, \<^verbatim>\<open>{error}\<close>, \<^verbatim>\<open>{success: true, foods}\<close> with the \<^verbatim>\<open>id\<close> of
  each food beside it, and \<^verbatim>\<open>{error, success: false}\<close>.
\<close>

datatype payload =
    NoBody
  | ErrorOnly string
  | Success "(string \<times> FoodItem) list"
  | Failure message

record Response =
  status :: nat
  payload :: payload

text \<open>\<^verbatim>\<open>`food_${Date.now()}_${index}`\<close>; \<open>now index\<close> is the clock at that call.\<close>

definition food_id :: "(nat \<Rightarrow> nat) \<Rightarrow> nat \<Rightarrow> string" where
  "food_id now index = ''food_'' @ numberToString (now index) @ ''_'' @ numberToString index"

text \<open>The body of the handler's \<^verbatim>\<open>try\<close> block.\<close>

definition serve_try ::
  "(string \<Rightarrow> fetch_result) \<Rightarrow> (nat \<Rightarrow> nat) \<Rightarrow> Request \<Rightarrow> exception + Response" where
  "serve_try service now req =
     (case req_json req of
        NotJson m \<Rightarrow> Inl (Error (Text m))
      | JsonNull \<Rightarrow> Inl (Error (EngineText Destructuring))
      | JsonObject img \<Rightarrow>
          (case img of
             None \<Rightarrow> Inr \<lparr>status = 400, payload = ErrorOnly ''No image provided''\<rparr>
           | Some i \<Rightarrow>
               if i = [] then Inr \<lparr>status = 400, payload = ErrorOnly ''No image provided''\<rparr>
               else
                 (case recognize (runCNNDetection service i) of
                    Inl error \<Rightarrow> Inl error
                  | Inr foods \<Rightarrow>
                      Inr \<lparr>status = 200,
                           payload =
                             Success (map (\<lambda>(index, food). (food_id now index, food))
                                        (enumerate 0 foods))\<rparr>)))"

text \<open>
  The handler: what it returns is \<open>Inr\<close>, what it would throw \<open>Inl\<close>. The \<^verbatim>\<open>catch\<close> block
  raises nothing itself.
\<close>

definition serve ::
  "(string \<Rightarrow> fetch_result) \<Rightarrow> (nat \<Rightarrow> nat) \<Rightarrow> Request \<Rightarrow> exception + Response" where
  "serve service now req =
     (if req_method req = ''OPTIONS'' then Inr \<lparr>status = 200, payload = NoBody\<rparr>
      else
        (case serve_try service now req of
           Inr response \<Rightarrow> Inr response
         | Inl error \<Rightarrow>
             Inr \<lparr>status = 500,
                  payload =
                    Failure (case error of Error message \<Rightarrow> message
                             | Thrown \<Rightarrow> Text ''Failed to analyze image'')\<rparr>))"

subsection \<open>Notions of the specification\<close>

text \<open>
  The definitions of this subsection are not code: they say in HOL what the specification
  says in words, and the theorems below compare the code with them.
  \<^item> \<open>isDouble v\<close>: the number \<open>v\<close> is a double, as every number of a parsed JSON text is.
  \<^item> \<open>round_half_up\<close>, \<open>round_1_decimal\<close>: rounding of a rational number to an integer, a
    tie going up, and to one decimal.
  \<^item> \<open>js_mean\<close>: the mean of a list of doubles in double arithmetic, summed from zero in the
    order of the list and divided by its length.
  \<^item> \<open>foodKeyOf\<close>: the key under which the handler files a detection; \<open>members k ds\<close>: the
    confidence and area ratio of the detections of key \<open>k\<close>; \<open>firstSeen\<close>: the elements of a
    list in the order of their first occurrence; \<open>groupsOf ds\<close>: each key with its members.
  \<^item> \<open>specKey\<close>: the key as the specification normalizes it (lower case, trimmed, spaces
    to underscores).
  \<^item> \<open>defaultItem\<close>: the item for a food that no table knows.
  \<^item> \<open>failureOf\<close>: the exception that an element of the detector's answer raises in the
    grouping loop, if any; \<open>firstFailure\<close>: the first one in an array; \<open>expectedFailure\<close>:
    the message of the failure that a request other than a preflight runs into, if any.
  \<^item> \<open>decimalValue\<close>: the number that a string of decimal digits denotes.
\<close>

definition isDouble :: "jsnum \<Rightarrow> bool" where
  "isDouble v = (case v of Num x \<Rightarrow> fl x = Num x | _ \<Rightarrow> True)"

definition round_half_up :: "rat \<Rightarrow> int" where
  "round_half_up x = \<lfloor>x + 1 / 2\<rfloor>"

definition round_1_decimal :: "rat \<Rightarrow> rat" where
  "round_1_decimal x = of_int (round_half_up (x * 10)) / 10"

definition js_mean :: "jsnum list \<Rightarrow> jsnum" where
  "js_mean xs = js_divide (foldl js_plus (Num 0) xs) (Num (of_nat (length xs)))"

definition foodKeyOf :: "Detection \<Rightarrow> string" where
  "foodKeyOf d = toLowerCase (food_name d)"

definition members :: "string \<Rightarrow> Detection list \<Rightarrow> (jsnum \<times> jsnum) list" where
  "members k ds =
     map (\<lambda>d. (Detection.confidence d, area_ratio d)) (filter (\<lambda>d. foodKeyOf d = k) ds)"

fun firstSeen :: "'a list \<Rightarrow> 'a list" where
  "firstSeen [] = []"
| "firstSeen (x # xs) = x # removeAll x (firstSeen xs)"

definition groupsOf :: "Detection list \<Rightarrow> groups" where
  "groupsOf ds = map (\<lambda>k. (k, members k ds)) (firstSeen (map foodKeyOf ds))"

definition trim :: "string \<Rightarrow> string" where
  "trim s = rev (dropWhile isSpace (rev (dropWhile isSpace s)))"

definition specKey :: "string \<Rightarrow> string" where
  "specKey label = map (\<lambda>c. if c = CHR '' '' then CHR ''_'' else c) (trim (toLowerCase label))"

definition defaultItem :: "string \<Rightarrow> jsnum \<Rightarrow> FoodItem" where
  "defaultItem label c =
     \<lparr>name = label, portion_size = ''1 portion'', portion_grams = Num 100, calories = Num 200,
      protein = Num 10, carbs = Num 30, fat = Num 5, confidence = c\<rparr>"

fun failureOf :: "element \<Rightarrow> exception option" where
  "failureOf Unreadable = Some (Error (EngineText FoodName))"
| "failureOf (Labelled d) =
     (if foodKeyOf d \<in> set Object_prototype then Some (Error (EngineText Push)) else None)"

fun firstFailure :: "element list \<Rightarrow> exception option" where
  "firstFailure [] = None"
| "firstFailure (x # xs) = (case failureOf x of Some e \<Rightarrow> Some e | None \<Rightarrow> firstFailure xs)"

fun labelled :: "element list \<Rightarrow> Detection list" where
  "labelled [] = []"
| "labelled (Unreadable # xs) = labelled xs"
| "labelled (Labelled d # xs) = d # labelled xs"

definition expectedFailure :: "(string \<Rightarrow> fetch_result) \<Rightarrow> Request \<Rightarrow> message option" where
  "expectedFailure service req =
     (case req_json req of
        NotJson m \<Rightarrow> Some (Text m)
      | JsonNull \<Rightarrow> Some (EngineText Destructuring)
      | JsonObject img \<Rightarrow>
          (case img of
             None \<Rightarrow> None
           | Some i \<Rightarrow>
               if i = [] then None
               else
                 (case runCNNDetection service i of
                    NotArray \<Rightarrow> Some (EngineText ForEach)
                  | Array xs \<Rightarrow>
                      (case firstFailure xs of
                         None \<Rightarrow> None
                       | Some (Error m) \<Rightarrow> Some m
                       | Some Thrown \<Rightarrow> Some (Text ''Failed to analyze image'')))))"

definition decimalValue :: "string \<Rightarrow> nat" where
  "decimalValue s = foldl (\<lambda>n c. 10 * n + (of_char c - 48)) 0 s"

subsection \<open>Example inputs\<close>

text \<open>
  \<open>detection label c a\<close> is the detection with that label and, as confidence and area
  ratio, the doubles of the decimal numbers \<open>c\<close> and \<open>a\<close>. The examples are: a request
  with an image, and a clock; a service that finds nothing; one that reports a detection
  whose label lower-cases to an inherited property; one whose answer holds a \<^verbatim>\<open>null\<close>
  among the detections; one that reports three chapathis and two bowls of pho, with the two
  items of the answer; the detections of the example of the specification; and three idlis
  in two orders.
\<close>

definition detection :: "string \<Rightarrow> rat \<Rightarrow> rat \<Rightarrow> Detection" where
  "detection label c a = \<lparr>food_name = label, confidence = Num (dbl c), area_ratio = Num (dbl a)\<rparr>"

definition examplePost :: Request where
  "examplePost = \<lparr>req_method = ''POST'', req_json = JsonObject (Some ''image'')\<rparr>"

definition epoch :: "nat \<Rightarrow> nat" where
  "epoch index = 0"

definition emptyService :: "string \<Rightarrow> fetch_result" where
  "emptyService img = Answer True (Some (ApiObject True (Some (Array []))))"

definition oddService :: "string \<Rightarrow> fetch_result" where
  "oddService img =
     Answer True (Some (ApiObject True (Some (Array [Labelled (detection ''Constructor'' 0.9 0.2)]))))"

definition brokenService :: "string \<Rightarrow> fetch_result" where
  "brokenService img =
     Answer True
       (Some (ApiObject True (Some (Array [Labelled (detection ''Idli'' 0.9 0.2), Unreadable]))))"

definition meal :: "Detection list" where
  "meal =
     [detection ''Chapathi'' 0.7 0.2, detection ''Pho'' 0.6 0.3, detection ''chapathi'' 0.8 0.1,
      detection ''Pho'' 0.7 0.4, detection ''CHAPATHI'' 0.9 0.2]"

definition mealService :: "string \<Rightarrow> fetch_result" where
  "mealService img = Answer True (Some (ApiObject True (Some (Array (map Labelled meal)))))"

definition chapathiItem :: FoodItem where
  "chapathiItem =
     \<lparr>name = ''chapathi'', portion_size = ''3 pieces'', portion_grams = Num 135,
      calories = Num 404, protein = Num (dbl 10.7), carbs = Num (dbl 62.1), fat = Num (dbl 12.4),
      confidence = Num (7205759403792793 / 9007199254740992)\<rparr>"

definition phoItem :: FoodItem where
  "phoItem =
     \<lparr>name = ''pho'', portion_size = ''1 portion'', portion_grams = Num 100, calories = Num 200,
      protein = Num 10, carbs = Num 30, fat = Num 5,
      confidence = Num (1463669878895411 / 2251799813685248)\<rparr>"

definition specExample :: "Detection list" where
  "specExample =
     [detection ''Idli'' 0.92 0.15, detection ''Idli'' 0.88 0.20, detection ''Sambar'' 0.87 0.35]"

definition ascending :: "Detection list" where
  "ascending = [detection ''Idli'' 0.1 0.2, detection ''Idli'' 0.2 0.2, detection ''Idli'' 0.3 0.2]"

definition descending :: "Detection list" where
  "descending = [detection ''Idli'' 0.3 0.2, detection ''Idli'' 0.2 0.2, detection ''Idli'' 0.1 0.2]"

section \<open>Properties\<close>

subsection \<open>Rounding to doubles\<close>

lemma pow2_pos: "0 < pow2 e"
  by (simp add: pow2_def)

lemma pow2_Suc: "pow2 (e + 1) = 2 * pow2 e"
proof -
  consider "0 \<le> e" | "e = - 1" | "e < - 1"
    by linarith
  then show ?thesis
  proof cases
    case 1
    then have "nat (e + 1) = Suc (nat e)" by simp
    then show ?thesis using 1 by (simp add: pow2_def)
  next
    case 2
    then show ?thesis by (simp add: pow2_def)
  next
    case 3
    then have "nat (- e) = Suc (nat (- (e + 1)))" by simp
    moreover have "\<not> 0 \<le> e" "\<not> 0 \<le> e + 1" using 3 by simp_all
    ultimately show ?thesis by (simp only: pow2_def if_False power_Suc)
  qed
qed

lemma pow2_nat: "pow2 (int k) = 2 ^ k"
  by (simp add: pow2_def)

lemma pow2_neg_nat: "pow2 (- int k) = 1 / 2 ^ k"
proof (cases "k = 0")
  case True
  then show ?thesis by (simp add: pow2_def)
next
  case False
  then have "\<not> 0 \<le> - int k" by simp
  moreover have "nat (- (- int k)) = k" by simp
  ultimately show ?thesis by (simp only: pow2_def if_False)
qed

lemma pow2_mono: "a \<le> b \<Longrightarrow> pow2 a \<le> pow2 b"
proof -
  assume "a \<le> b"
  then obtain k where b: "b = a + int k"
    by (metis zle_iff_zadd)
  have "pow2 a \<le> pow2 (a + int k)"
  proof (induction k)
    case 0
    show ?case by simp
  next
    case (Suc k)
    have "a + int (Suc k) = (a + int k) + 1"
      by simp
    then have "pow2 (a + int (Suc k)) = 2 * pow2 (a + int k)"
      by (simp only: pow2_Suc)
    moreover have "0 < pow2 (a + int k)" by (rule pow2_pos)
    ultimately show ?case using Suc by linarith
  qed
  then show ?thesis using b by simp
qed

lemma bitlen_eq: "2 ^ j \<le> n \<Longrightarrow> n < 2 ^ Suc j \<Longrightarrow> bitlen n = Suc j"
proof (induction j arbitrary: n)
  case 0
  then have "n = 1" by simp
  then show ?case by (simp add: bitlen.simps)
next
  case (Suc j)
  have "2 ^ j \<le> n div 2" "n div 2 < 2 ^ Suc j"
    using Suc.prems by simp_all
  then have "bitlen (n div 2) = Suc j"
    by (rule Suc.IH)
  moreover have "(0::int) < 2 ^ Suc j"
    by simp
  then have "0 < n"
    using Suc.prems(1) by linarith
  ultimately show ?case
    by (subst bitlen.simps) simp
qed

lemma ilog2_unique:
  assumes "pow2 e \<le> x" and "x < pow2 (e + 1)"
  shows "ilog2 x = e"
proof (cases "1 \<le> x")
  case True
  have "0 \<le> e"
  proof (rule ccontr)
    assume "\<not> 0 \<le> e"
    then have "pow2 (e + 1) \<le> pow2 0"
      by (intro pow2_mono) simp
    then show False
      using assms(2) True by (simp add: pow2_def)
  qed
  define j where "j = nat e"
  have j: "e = int j"
    using \<open>0 \<le> e\<close> by (simp add: j_def)
  have lo: "(2::rat) ^ j \<le> x" and hi: "x < 2 ^ Suc j"
    using assms pow2_nat [of j] pow2_nat [of "Suc j"] by (simp_all add: j add.commute)
  have "(of_int (2 ^ j) :: rat) \<le> x"
    using lo by simp
  then have l: "2 ^ j \<le> \<lfloor>x\<rfloor>"
    by (simp only: le_floor_iff)
  have "x < of_int (2 ^ Suc j)"
    using hi by simp
  then have h: "\<lfloor>x\<rfloor> < 2 ^ Suc j"
    by (simp only: floor_less_iff)
  show ?thesis
    using True bitlen_eq [OF l h] by (simp add: ilog2_def j)
next
  case False
  then have x1: "x < 1" by simp
  have x0: "0 < x"
    using assms(1) pow2_pos [of e] by linarith
  have "e < 0"
  proof (rule ccontr)
    assume "\<not> e < 0"
    then have "pow2 0 \<le> pow2 e"
      by (intro pow2_mono) simp
    then show False
      using assms(1) x1 by (simp add: pow2_def)
  qed
  define j where "j = nat (- e - 1)"
  have j: "e = - int (Suc j)"
    using \<open>e < 0\<close> by (simp add: j_def)
  have lo: "1 / 2 ^ Suc j \<le> x"
    using assms(1) pow2_neg_nat [of "Suc j"] by (simp add: j)
  have "e + 1 = - int j"
    by (simp add: j)
  then have hi: "x < 1 / 2 ^ j"
    using assms(2) pow2_neg_nat [of j] by simp
  have a: "1 / x \<le> 2 ^ Suc j"
    using lo x0 by (simp add: field_simps)
  have b: "2 ^ j < 1 / x"
    using hi x0 by (simp add: field_simps)
  have "1 / x \<le> of_int (2 ^ Suc j)"
    using a by simp
  then have c: "\<lceil>1 / x\<rceil> \<le> 2 ^ Suc j"
    by (simp only: ceiling_le_iff)
  have "of_int (2 ^ j) < 1 / x"
    using b by simp
  then have d: "2 ^ j < \<lceil>1 / x\<rceil>"
    by (simp only: less_ceiling_iff)
  have "bitlen (\<lceil>1 / x\<rceil> - 1) = Suc j"
    using c d by (intro bitlen_eq) simp_all
  then show ?thesis
    using False by (simp add: ilog2_def j)
qed

lemma round_half_even_near:
  assumes "\<bar>q - of_int N\<bar> < 1 / 2"
  shows "round_half_even q = N"
proof -
  have f: "of_int \<lfloor>q\<rfloor> \<le> q" "q < of_int \<lfloor>q\<rfloor> + 1"
    by linarith+
  consider "q - of_int \<lfloor>q\<rfloor> < 1 / 2" | "1 / 2 < q - of_int \<lfloor>q\<rfloor>" | "q - of_int \<lfloor>q\<rfloor> = 1 / 2"
    by linarith
  then show ?thesis
  proof cases
    case 1
    have "(of_int N :: rat) < of_int \<lfloor>q\<rfloor> + 1" "(of_int \<lfloor>q\<rfloor> :: rat) < of_int N + 1"
      using assms 1 f by linarith+
    then have "N < \<lfloor>q\<rfloor> + 1" "\<lfloor>q\<rfloor> < N + 1"
      by linarith+
    then have "\<lfloor>q\<rfloor> = N" by simp
    then show ?thesis
      using 1 by (simp add: round_half_even_def Let_def)
  next
    case 2
    have "(of_int N :: rat) < of_int \<lfloor>q\<rfloor> + 2" "(of_int \<lfloor>q\<rfloor> :: rat) < of_int N"
      using assms 2 f by linarith+
    then have "N < \<lfloor>q\<rfloor> + 2" "\<lfloor>q\<rfloor> < N"
      by linarith+
    then have "\<lfloor>q\<rfloor> + 1 = N" by simp
    then show ?thesis
      using 2 by (auto simp: round_half_even_def Let_def)
  next
    case 3
    then have "q = of_int \<lfloor>q\<rfloor> + 1 / 2"
      by linarith
    then have "\<bar>of_int \<lfloor>q\<rfloor> + 1 / 2 - (of_int N :: rat)\<bar> < 1 / 2"
      using assms by simp
    then have "(of_int N :: rat) < of_int \<lfloor>q\<rfloor> + 1" "(of_int \<lfloor>q\<rfloor> :: rat) < of_int N"
      by linarith+
    then have "N < \<lfloor>q\<rfloor> + 1" "\<lfloor>q\<rfloor> < N"
      by linarith+
    then show ?thesis by simp
  qed
qed

lemma dbl_normal:
  assumes "pow2 e \<le> x" and "x < pow2 (e + 1)" and "- 1022 \<le> e"
    and "\<bar>x - y\<bar> < pow2 (e - 53)" and "y = of_int N * pow2 (e - 52)"
  shows "dbl x = y"
proof -
  have x0: "0 < x"
    using assms(1) pow2_pos [of e] by linarith
  have il: "ilog2 \<bar>x\<bar> = e"
    using ilog2_unique [OF assms(1, 2)] x0 by simp
  have u: "pow2 (e - 52) = 2 * pow2 (e - 53)"
    using pow2_Suc [of "e - 53"] by simp
  have u0: "pow2 (e - 52) \<noteq> 0"
    by (simp add: pow2_def)
  have "x / pow2 (e - 52) - of_int N = (x - y) / pow2 (e - 52)"
    unfolding assms(5) using u0 by (simp add: diff_divide_distrib)
  moreover have "\<bar>pow2 (e - 52)\<bar> = pow2 (e - 52)"
    using pow2_pos [of "e - 52"] by (simp only: abs_of_pos)
  ultimately have "\<bar>x / pow2 (e - 52) - of_int N\<bar> = \<bar>x - y\<bar> / pow2 (e - 52)"
    by (simp only: abs_divide)
  also have "\<dots> < pow2 (e - 53) / pow2 (e - 52)"
    using assms(4) pow2_pos [of "e - 52"] by (simp add: divide_strict_right_mono)
  also have "\<dots> = 1 / 2"
    unfolding u using pow2_pos [of "e - 53"] by simp
  finally have "round_half_even (x / pow2 (e - 52)) = N"
    by (rule round_half_even_near)
  then show ?thesis
    using x0 assms(3) unfolding dbl_def il assms(5) by (simp add: Let_def)
qed

lemma fl_finite:
  assumes "dbl x = y" and "- (2 ^ 64) < y" and "y < 2 ^ 64"
  shows "fl x = Num y"
proof -
  have "(2::rat) ^ 64 < 2 ^ 1024"
    by (rule power_strict_increasing) simp_all
  then show ?thesis
    using assms by (simp add: fl_def Let_def)
qed

lemma fl_normal:
  assumes "pow2 e \<le> x" and "x < pow2 (e + 1)" and "- 1022 \<le> e"
    and "\<bar>x - y\<bar> < pow2 (e - 53)" and "y = of_int N * pow2 (e - 52)"
    and "- (2 ^ 64) < y" and "y < 2 ^ 64"
  shows "fl x = Num y"
  using dbl_normal [OF assms(1-5)] assms(6, 7) by (rule fl_finite)

lemma round_half_even_tie:
  assumes "q = of_int n + 1 / 2"
  shows "round_half_even q = (if even n then n else n + 1)"
proof -
  have "\<lfloor>q\<rfloor> = n"
    unfolding assms by linarith
  then show ?thesis
    using assms by (simp add: round_half_even_def Let_def)
qed

lemma dbl_tie:
  assumes "pow2 e \<le> x" and "x < pow2 (e + 1)" and "- 1022 \<le> e"
    and "x = (of_int n + 1 / 2) * pow2 (e - 52)"
    and "y = of_int (if even n then n else n + 1) * pow2 (e - 52)"
  shows "dbl x = y"
proof -
  have x0: "0 < x"
    using assms(1) pow2_pos [of e] by linarith
  have il: "ilog2 \<bar>x\<bar> = e"
    using ilog2_unique [OF assms(1, 2)] x0 by simp
  have u0: "pow2 (e - 52) \<noteq> 0"
    by (simp add: pow2_def)
  have "x / pow2 (e - 52) = of_int n + 1 / 2"
    unfolding assms(4) using u0 by simp
  then have "round_half_even (x / pow2 (e - 52)) = (if even n then n else n + 1)"
    by (rule round_half_even_tie)
  then show ?thesis
    using x0 assms(3) unfolding dbl_def il assms(5) by (simp add: Let_def)
qed

lemma fl_tie:
  assumes "pow2 e \<le> x" and "x < pow2 (e + 1)" and "- 1022 \<le> e"
    and "x = (of_int n + 1 / 2) * pow2 (e - 52)"
    and "y = of_int (if even n then n else n + 1) * pow2 (e - 52)"
    and "- (2 ^ 64) < y" and "y < 2 ^ 64"
  shows "fl x = Num y"
  using dbl_tie [OF assms(1-5)] assms(6, 7) by (rule fl_finite)

lemma floor_numeral_div: "\<lfloor>(numeral a :: rat) / numeral b\<rfloor> = numeral a div numeral b"
  using floor_divide_of_int_eq [of "numeral a" "numeral b", where ?'a = rat] by simp

lemma bitlen_le: "n < 2 ^ k \<Longrightarrow> bitlen n \<le> k"
proof (induction k arbitrary: n)
  case 0
  then show ?case by (simp add: bitlen.simps)
next
  case (Suc k)
  show ?case
  proof (cases "n \<le> 0")
    case True
    then show ?thesis by (simp add: bitlen.simps)
  next
    case False
    have "n div 2 < 2 ^ k"
      using Suc.prems by simp
    then have "bitlen (n div 2) \<le> k"
      by (rule Suc.IH)
    then show ?thesis
      using False by (subst bitlen.simps) simp
  qed
qed

lemma bitlen_pos: "0 < n \<Longrightarrow> 0 < bitlen n"
  by (subst bitlen.simps) simp

lemma pow2_nonpos: "e \<le> 0 \<Longrightarrow> pow2 e = 1 / 2 ^ nat (- e)"
  by (cases "e = 0") (simp_all add: pow2_def)

lemma round_half_even_int [simp]: "round_half_even (of_int k) = k"
  by (simp add: round_half_even_def)

lemma dbl_int:
  assumes "0 \<le> m" and "m < 2 ^ 53"
  shows "dbl (of_int m) = of_int m"
proof (cases "m = 0")
  case True
  then show ?thesis by (simp add: dbl_def)
next
  case False
  then have pos: "0 < m" using assms(1) by simp
  define j where "j = 53 - bitlen m"
  have b: "bitlen m \<le> 53" "0 < bitlen m"
    using bitlen_le [OF assms(2)] bitlen_pos [OF pos] by simp_all
  have one: "(1::rat) \<le> of_int m"
    using pos by simp
  have e: "ilog2 \<bar>of_int m\<bar> = int (bitlen m) - 1"
    using one pos by (simp add: ilog2_def)
  have mx: "max (int (bitlen m) - 1) (- 1022) = int (bitlen m) - 1"
    using b by simp
  have u: "pow2 (int (bitlen m) - 1 - 52) = 1 / 2 ^ j"
    using b by (subst pow2_nonpos) (simp_all add: j_def nat_diff_distrib')
  have q: "\<bar>of_int m :: rat\<bar> / (1 / 2 ^ j) = of_int (m * 2 ^ j)"
    using pos by simp
  have "dbl (of_int m) = sgn (of_int m :: rat) * of_int (round_half_even (of_int (m * 2 ^ j))) * (1 / 2 ^ j)"
    using False unfolding dbl_def e mx Let_def u q by simp
  also have "\<dots> = of_int (m * 2 ^ j) * (1 / 2 ^ j)"
    using pos by (simp only: round_half_even_int) simp
  also have "\<dots> = of_int m"
    by simp
  finally show ?thesis .
qed

lemma fl_int:
  assumes "0 \<le> m" and "m < 2 ^ 53"
  shows "fl (of_int m) = Num (of_int m)"
proof -
  have "(of_int m :: rat) < 2 ^ 53"
    using assms(2) by (metis of_int_less_numeral_power_cancel_iff)
  also have "(2::rat) ^ 53 < 2 ^ 1024"
    by (rule power_strict_increasing) simp_all
  finally have up: "(of_int m :: rat) < 2 ^ 1024" .
  have "(0::rat) < 2 ^ 1024"
    by (rule zero_less_power) simp
  moreover have "(0::rat) \<le> of_int m"
    using assms(1) by simp
  ultimately have lo: "\<not> (of_int m :: rat) \<le> - (2 ^ 1024)"
    by linarith
  show ?thesis
    unfolding fl_def Let_def dbl_int [OF assms] using up lo
    by (simp only: not_le [symmetric] if_False)
qed

lemma dbl_numeral: "(numeral k :: int) < 2 ^ 53 \<Longrightarrow> dbl (numeral k) = numeral k"
  using dbl_int [of "numeral k"] by simp

lemma fl_numeral: "(numeral k :: int) < 2 ^ 53 \<Longrightarrow> fl (numeral k) = Num (numeral k)"
  using fl_int [of "numeral k"] by simp

lemma fl_zero: "fl 0 = Num 0" and fl_one: "fl 1 = Num 1"
  using fl_int [of 0] fl_int [of 1] by simp_all

lemma dbl_zero: "dbl 0 = 0" and dbl_one: "dbl 1 = 1"
  using dbl_int [of 0] dbl_int [of 1] by simp_all

text \<open>The values of the roundings that the examples below go through.\<close>

lemma dbl_value_1: "dbl (99 / 1000) = 3566850904877433 / 36028797018963968"
  by (rule dbl_normal [where e = "- 4" and N = 7133701809754866]) (simp_all add: pow2_def)

lemma dbl_value_2: "dbl (1 / 10) = 3602879701896397 / 36028797018963968"
  by (rule dbl_normal [where e = "- 4" and N = 7205759403792794]) (simp_all add: pow2_def)

lemma dbl_value_3: "dbl (3 / 20) = 5404319552844595 / 36028797018963968"
  by (rule dbl_normal [where e = "- 3" and N = 5404319552844595]) (simp_all add: pow2_def)

lemma dbl_value_4: "dbl (1 / 5) = 3602879701896397 / 18014398509481984"
  by (rule dbl_normal [where e = "- 3" and N = 7205759403792794]) (simp_all add: pow2_def)

lemma dbl_value_5: "dbl (1 / 4) = 1 / 4"
  by (rule dbl_normal [where e = "- 2" and N = 4503599627370496]) (simp_all add: pow2_def)

lemma dbl_value_6: "dbl (3 / 10) = 5404319552844595 / 18014398509481984"
  by (rule dbl_normal [where e = "- 2" and N = 5404319552844595]) (simp_all add: pow2_def)

lemma dbl_value_7: "dbl (7 / 20) = 3152519739159347 / 9007199254740992"
  by (rule dbl_normal [where e = "- 2" and N = 6305039478318694]) (simp_all add: pow2_def)

lemma dbl_value_8: "dbl (2 / 5) = 3602879701896397 / 9007199254740992"
  by (rule dbl_normal [where e = "- 2" and N = 7205759403792794]) (simp_all add: pow2_def)

lemma dbl_value_9: "dbl (1 / 2) = 1 / 2"
  by (rule dbl_normal [where e = "- 1" and N = 4503599627370496]) (simp_all add: pow2_def)

lemma dbl_value_10: "dbl (3 / 5) = 5404319552844595 / 9007199254740992"
  by (rule dbl_normal [where e = "- 1" and N = 5404319552844595]) (simp_all add: pow2_def)

lemma dbl_value_11: "dbl (7 / 10) = 3152519739159347 / 4503599627370496"
  by (rule dbl_normal [where e = "- 1" and N = 6305039478318694]) (simp_all add: pow2_def)

lemma dbl_value_12: "dbl (4 / 5) = 3602879701896397 / 4503599627370496"
  by (rule dbl_normal [where e = "- 1" and N = 7205759403792794]) (simp_all add: pow2_def)

lemma dbl_value_13: "dbl (17 / 20) = 7656119366529843 / 9007199254740992"
  by (rule dbl_normal [where e = "- 1" and N = 7656119366529843]) (simp_all add: pow2_def)

lemma dbl_value_14: "dbl (87 / 100) = 7836263351624663 / 9007199254740992"
  by (rule dbl_normal [where e = "- 1" and N = 7836263351624663]) (simp_all add: pow2_def)

lemma dbl_value_15: "dbl (22 / 25) = 7926335344172073 / 9007199254740992"
  by (rule dbl_normal [where e = "- 1" and N = 7926335344172073]) (simp_all add: pow2_def)

lemma dbl_value_16: "dbl (9 / 10) = 8106479329266893 / 9007199254740992"
  by (rule dbl_normal [where e = "- 1" and N = 8106479329266893]) (simp_all add: pow2_def)

lemma dbl_value_17: "dbl (23 / 25) = 8286623314361713 / 9007199254740992"
  by (rule dbl_normal [where e = "- 1" and N = 8286623314361713]) (simp_all add: pow2_def)

lemma dbl_value_18: "dbl (3 / 2) = 3 / 2"
  by (rule dbl_normal [where e = 0 and N = 6755399441055744]) (simp_all add: pow2_def)

lemma dbl_value_19: "dbl (18 / 5) = 8106479329266893 / 2251799813685248"
  by (rule dbl_normal [where e = 1 and N = 8106479329266893]) (simp_all add: pow2_def)

lemma dbl_value_20: "dbl (27 / 5) = 3039929748475085 / 562949953421312"
  by (rule dbl_normal [where e = 2 and N = 6079859496950170]) (simp_all add: pow2_def)

lemma dbl_value_21: "dbl (79 / 10) = 4447304632028365 / 562949953421312"
  by (rule dbl_normal [where e = 2 and N = 8894609264056730]) (simp_all add: pow2_def)

lemma dbl_value_22: "dbl (46 / 5) = 2589569785738035 / 281474976710656"
  by (rule dbl_normal [where e = 3 and N = 5179139571476070]) (simp_all add: pow2_def)

lemma dbl_value_23: "dbl (107 / 10) = 3011782250804019 / 281474976710656"
  by (rule dbl_normal [where e = 3 and N = 6023564501608038]) (simp_all add: pow2_def)

lemma dbl_value_24: "dbl (62 / 5) = 6980579422424269 / 562949953421312"
  by (rule dbl_normal [where e = 3 and N = 6980579422424269]) (simp_all add: pow2_def)

lemma dbl_value_25: "dbl (27 / 2) = 27 / 2"
  by (rule dbl_normal [where e = 3 and N = 7599824371187712]) (simp_all add: pow2_def)

lemma dbl_value_26: "dbl (621 / 10) = 8739798026865869 / 140737488355328"
  by (rule dbl_normal [where e = 5 and N = 8739798026865869]) (simp_all add: pow2_def)

lemma fl_value_1: "fl (3602879701896397 / 36028797018963968) = Num (3602879701896397 / 36028797018963968)"
  by (rule fl_normal [where e = "- 4" and N = 7205759403792794]) (simp_all add: pow2_def)

lemma fl_value_2: "fl (10808639105689191 / 72057594037927936) = Num (1351079888211149 / 9007199254740992)"
  by (rule fl_tie [where e = "- 3" and n = 5404319552844595]) (simp_all add: pow2_def)

lemma fl_value_3: "fl (5404319552844595 / 27021597764222976) = Num (7205759403792793 / 36028797018963968)"
  by (rule fl_normal [where e = "- 3" and N = 7205759403792793]) (simp_all add: pow2_def)

lemma fl_value_4: "fl (1 / 5) = Num (3602879701896397 / 18014398509481984)"
  by (rule fl_normal [where e = "- 3" and N = 7205759403792794]) (simp_all add: pow2_def)

lemma fl_value_5: "fl (1351079888211149 / 6755399441055744) = Num (7205759403792795 / 36028797018963968)"
  by (rule fl_normal [where e = "- 3" and N = 7205759403792795]) (simp_all add: pow2_def)

lemma fl_value_6: "fl (5404319552844595 / 18014398509481984) = Num (5404319552844595 / 18014398509481984)"
  by (rule fl_normal [where e = "- 2" and N = 5404319552844595]) (simp_all add: pow2_def)

lemma fl_value_7: "fl (10808639105689191 / 36028797018963968) = Num (1351079888211149 / 4503599627370496)"
  by (rule fl_tie [where e = "- 2" and n = 5404319552844595]) (simp_all add: pow2_def)

lemma fl_value_8: "fl (1 / 2) = Num (1 / 2)"
  by (rule fl_normal [where e = "- 1" and N = 4503599627370496]) (simp_all add: pow2_def)

lemma fl_value_9: "fl (5404319552844595 / 9007199254740992) = Num (5404319552844595 / 9007199254740992)"
  by (rule fl_normal [where e = "- 1" and N = 5404319552844595]) (simp_all add: pow2_def)

lemma fl_value_10: "fl (21617278211378381 / 36028797018963968) = Num (5404319552844595 / 9007199254740992)"
  by (rule fl_normal [where e = "- 1" and N = 5404319552844595]) (simp_all add: pow2_def)

lemma fl_value_11: "fl (10808639105689191 / 18014398509481984) = Num (1351079888211149 / 2251799813685248)"
  by (rule fl_tie [where e = "- 1" and n = 5404319552844595]) (simp_all add: pow2_def)

lemma fl_value_12: "fl (1463669878895411 / 2251799813685248) = Num (1463669878895411 / 2251799813685248)"
  by (rule fl_normal [where e = "- 1" and N = 5854679515581644]) (simp_all add: pow2_def)

lemma fl_value_13: "fl (3152519739159347 / 4503599627370496) = Num (3152519739159347 / 4503599627370496)"
  by (rule fl_normal [where e = "- 1" and N = 6305039478318694]) (simp_all add: pow2_def)

lemma fl_value_14: "fl (5404319552844595 / 6755399441055744) = Num (7205759403792793 / 9007199254740992)"
  by (rule fl_normal [where e = "- 1" and N = 7205759403792793]) (simp_all add: pow2_def)

lemma fl_value_15: "fl (3602879701896397 / 4503599627370496) = Num (3602879701896397 / 4503599627370496)"
  by (rule fl_normal [where e = "- 1" and N = 7205759403792794]) (simp_all add: pow2_def)

lemma fl_value_16: "fl (7836263351624663 / 9007199254740992) = Num (7836263351624663 / 9007199254740992)"
  by (rule fl_normal [where e = "- 1" and N = 7836263351624663]) (simp_all add: pow2_def)

lemma fl_value_17: "fl (7926335344172073 / 9007199254740992) = Num (7926335344172073 / 9007199254740992)"
  by (rule fl_normal [where e = "- 1" and N = 7926335344172073]) (simp_all add: pow2_def)

lemma fl_value_18: "fl (8106479329266893 / 9007199254740992) = Num (8106479329266893 / 9007199254740992)"
  by (rule fl_normal [where e = "- 1" and N = 8106479329266893]) (simp_all add: pow2_def)

lemma fl_value_19: "fl (8286623314361713 / 9007199254740992) = Num (8286623314361713 / 9007199254740992)"
  by (rule fl_normal [where e = "- 1" and N = 8286623314361713]) (simp_all add: pow2_def)

lemma fl_value_20: "fl (9457559217478041 / 9007199254740992) = Num (1182194902184755 / 1125899906842624)"
  by (rule fl_tie [where e = 0 and n = 4728779608739020]) (simp_all add: pow2_def)

lemma fl_value_21: "fl (11709359031163289 / 9007199254740992) = Num (1463669878895411 / 1125899906842624)"
  by (rule fl_tie [where e = 0 and n = 5854679515581644]) (simp_all add: pow2_def)

lemma fl_value_22: "fl (27 / 20) = Num (3039929748475085 / 2251799813685248)"
  by (rule fl_normal [where e = 0 and N = 6079859496950170]) (simp_all add: pow2_def)

lemma fl_value_23: "fl (3 / 2) = Num (3 / 2)"
  by (rule fl_normal [where e = 0 and N = 6755399441055744]) (simp_all add: pow2_def)

lemma fl_value_24: "fl (6755399441055745 / 4503599627370496) = Num (6755399441055745 / 4503599627370496)"
  by (rule fl_normal [where e = 0 and N = 6755399441055745]) (simp_all add: pow2_def)

lemma fl_value_25: "fl (8106479329266893 / 4503599627370496) = Num (8106479329266893 / 4503599627370496)"
  by (rule fl_normal [where e = 0 and N = 8106479329266893]) (simp_all add: pow2_def)

lemma fl_value_26: "fl (21617278211378381 / 9007199254740992) = Num (5404319552844595 / 2251799813685248)"
  by (rule fl_normal [where e = 1 and N = 5404319552844595]) (simp_all add: pow2_def)

lemma fl_value_27: "fl (27 / 5) = Num (3039929748475085 / 562949953421312)"
  by (rule fl_normal [where e = 2 and N = 6079859496950170]) (simp_all add: pow2_def)

lemma fl_value_28: "fl (24319437987800679 / 4503599627370496) = Num (3039929748475085 / 562949953421312)"
  by (rule fl_normal [where e = 2 and N = 6079859496950170]) (simp_all add: pow2_def)

lemma fl_value_29: "fl (5910974510923775 / 562949953421312) = Num (5910974510923775 / 562949953421312)"
  by (rule fl_normal [where e = 3 and N = 5910974510923775]) (simp_all add: pow2_def)

lemma fl_value_30: "fl (13519493651434068064409215786025 / 1267650600228229401496703205376) = Num (6003861253238293 / 562949953421312)"
  by (rule fl_normal [where e = 3 and N = 6003861253238293]) (simp_all add: pow2_def)

lemma fl_value_31: "fl (107 / 10) = Num (3011782250804019 / 281474976710656)"
  by (rule fl_normal [where e = 3 and N = 6023564501608038]) (simp_all add: pow2_def)

lemma fl_value_32: "fl (62 / 5) = Num (6980579422424269 / 562949953421312)"
  by (rule fl_normal [where e = 3 and N = 6980579422424269]) (simp_all add: pow2_def)

lemma fl_value_33: "fl (7872110227417304493222534357975 / 633825300114114700748351602688) = Num (6991838421492695 / 562949953421312)"
  by (rule fl_normal [where e = 3 and N = 6991838421492695]) (simp_all add: pow2_def)

lemma fl_value_34: "fl (27 / 2) = Num (27 / 2)"
  by (rule fl_normal [where e = 3 and N = 7599824371187712]) (simp_all add: pow2_def)

lemma fl_value_35: "fl (45 / 2) = Num (45 / 2)"
  by (rule fl_normal [where e = 4 and N = 6333186975989760]) (simp_all add: pow2_def)

lemma fl_value_36: "fl (15199648742375425 / 281474976710656) = Num 54"
  by (rule fl_tie [where e = 5 and n = 7599824371187712]) (simp_all add: pow2_def)

lemma fl_value_37: "fl (621 / 10) = Num (8739798026865869 / 140737488355328)"
  by (rule fl_normal [where e = 5 and N = 8739798026865869]) (simp_all add: pow2_def)

lemma fl_value_38: "fl (69918384214926955 / 1125899906842624) = Num (8739798026865869 / 140737488355328)"
  by (rule fl_normal [where e = 5 and N = 8739798026865869]) (simp_all add: pow2_def)

lemma fl_value_39: "fl (30019306266191465 / 281474976710656) = Num (3752413283273933 / 35184372088832)"
  by (rule fl_normal [where e = 6 and N = 7504826566547866]) (simp_all add: pow2_def)

lemma fl_value_40: "fl (34959192107463475 / 281474976710656) = Num (8739798026865869 / 70368744177664)"
  by (rule fl_normal [where e = 6 and N = 8739798026865869]) (simp_all add: pow2_def)

lemma fl_value_41: "fl (908938994794050415 / 2251799813685248) = Num (7101085896828519 / 17592186044416)"
  by (rule fl_normal [where e = 8 and N = 7101085896828519]) (simp_all add: pow2_def)

lemma fl_value_42: "fl (43698990134329345 / 70368744177664) = Num 621"
  by (rule fl_normal [where e = 9 and N = 5462373766791168]) (simp_all add: pow2_def)

lemmas double_values =
  dbl_numeral fl_numeral fl_zero fl_one dbl_zero dbl_one
  dbl_value_1 dbl_value_2 dbl_value_3 dbl_value_4 dbl_value_5 dbl_value_6 dbl_value_7
  dbl_value_8 dbl_value_9 dbl_value_10 dbl_value_11 dbl_value_12 dbl_value_13 dbl_value_14
  dbl_value_15 dbl_value_16 dbl_value_17 dbl_value_18 dbl_value_19 dbl_value_20 dbl_value_21
  dbl_value_22 dbl_value_23 dbl_value_24 dbl_value_25 dbl_value_26 fl_value_1 fl_value_2
  fl_value_3 fl_value_4 fl_value_5 fl_value_6 fl_value_7 fl_value_8 fl_value_9 fl_value_10
  fl_value_11 fl_value_12 fl_value_13 fl_value_14 fl_value_15 fl_value_16 fl_value_17
  fl_value_18 fl_value_19 fl_value_20 fl_value_21 fl_value_22 fl_value_23 fl_value_24
  fl_value_25 fl_value_26 fl_value_27 fl_value_28 fl_value_29 fl_value_30 fl_value_31
  fl_value_32 fl_value_33 fl_value_34 fl_value_35 fl_value_36 fl_value_37 fl_value_38
  fl_value_39 fl_value_40 fl_value_41 fl_value_42

lemma dbl_tenth: "dbl 0.10 = 7205759403792794 / 2 ^ 56"
  by (simp add: double_values)

lemma below_tenth:
  assumes "dbl r = r"
  shows "r < dbl 0.10 \<longleftrightarrow> r < 0.10"
proof
  assume "r < 0.10"
  then have "r < 7205759403792794 / 2 ^ 56"
    by simp
  then show "r < dbl 0.10"
    unfolding dbl_tenth .
next
  assume lt: "r < dbl 0.10"
  show "r < 0.10"
  proof (rule ccontr)
    assume "\<not> r < 0.10"
    then have ge: "1 / 10 \<le> r" by simp
    have up: "r < 1 / 8"
      using lt unfolding dbl_tenth by simp
    have "pow2 (- 4) \<le> r" "r < pow2 (- 4 + 1)"
      using ge up by (simp_all add: pow2_def)
    then have "ilog2 r = - 4"
      by (rule ilog2_unique)
    then have il: "ilog2 \<bar>r\<bar> = - 4"
      using ge by simp
    define N where "N = round_half_even (\<bar>r\<bar> / pow2 (- 56))"
    have "dbl r = sgn r * of_int N * pow2 (- 56)"
      using ge unfolding dbl_def il N_def by (simp add: Let_def)
    then have r: "r = of_int N / 2 ^ 56"
      using assms ge by (simp add: pow2_def sgn_if)
    have "(2 ^ 56 :: rat) / 10 \<le> of_int N"
      using ge unfolding r by (simp add: field_simps)
    then have "(7205759403792793 :: rat) < of_int N"
      by simp
    then have "7205759403792793 < N"
      by linarith
    then have "7205759403792794 \<le> N"
      by simp
    then have "(7205759403792794 :: rat) \<le> of_int N"
      by linarith
    then have "7205759403792794 / 2 ^ 56 \<le> r"
      unfolding r by (simp add: field_simps)
    with lt show False
      unfolding dbl_tenth by simp
  qed
qed

lemma dbl_exact: "dbl 0.25 = 0.25" "dbl 0.50 = 0.50" "dbl 0.5 = 1 / 2"
  by (simp_all add: double_values)

lemma isDouble_Num: "isDouble (Num x) \<longleftrightarrow> fl x = Num x"
  by (simp add: isDouble_def)

lemma isDouble_int: "0 \<le> m \<Longrightarrow> m < 2 ^ 53 \<Longrightarrow> isDouble (Num (of_int m))"
  by (simp add: isDouble_def fl_int)

lemma Math_round_half_up: "Math_round (Num x) = Num (of_int (round_half_up x))"
  by (simp add: round_half_up_def)

lemma js_plus_zero: "isDouble v \<Longrightarrow> js_plus (Num 0) v = v"
  by (cases v) (simp_all add: isDouble_def)

lemma js_plus_commute: "js_plus a b = js_plus b a"
  by (cases a; cases b) (simp_all add: add.commute)

lemma js_divide_one: "isDouble v \<Longrightarrow> js_divide v (Num 1) = v"
  by (cases v) (simp_all add: isDouble_def js_inf_def)

subsection \<open>The tables and the estimator\<close>

lemmas table_defs =
  NUTRITION_DATA_def COUNTABLE_FOODS_def PORTION_GRAMS_def Object_prototype_def

lemma profile_sel:
  "calories_per_100g (profile cal c p f gi cat) = dbl cal"
  "carbs_g (profile cal c p f gi cat) = dbl c"
  "protein_g (profile cal c p f gi cat) = dbl p"
  "fat_g (profile cal c p f gi cat) = dbl f"
  "gi_value (profile cal c p f gi cat) = dbl gi"
  "gi_category (profile cal c p f gi cat) = cat"
  by (simp_all add: profile_def)

lemmas string_defs = toLowerCase_def toLowerChar_def upperCase_def lowerCase_def isSpace_def

lemma nutrition_keys_own: "set (map fst NUTRITION_DATA) \<inter> set Object_prototype = {}"
  by (simp add: table_defs)

lemma matched_not_inherited:
  assumes "getProperty NUTRITION_DATA key = Own p"
  shows "key \<notin> set Object_prototype" and "map_of NUTRITION_DATA key = Some p"
proof -
  show m: "map_of NUTRITION_DATA key = Some p"
    using assms by (auto simp: getProperty_def split: option.splits if_splits)
  then have "key \<in> set (map fst NUTRITION_DATA)"
    by (metis map_of_eq_None_iff option.distinct(1) set_map)
  then show "key \<notin> set Object_prototype"
    using nutrition_keys_own by blast
qed

lemma countable_entry:
  assumes "map_of COUNTABLE_FOODS key = Some w"
  shows "w \<noteq> 0" and "\<exists>p. getProperty NUTRITION_DATA key = Own p"
    and "\<exists>W. w = of_int W \<and> 0 < W \<and> W \<le> 120"
proof -
  have w: "w \<in> {40, 70, 120, 45, 100, 60, 50}"
    using assms by (auto simp: COUNTABLE_FOODS_def split: if_splits)
  then show "w \<noteq> 0"
    by auto
  show "\<exists>p. getProperty NUTRITION_DATA key = Own p"
    using assms
    by (auto simp: COUNTABLE_FOODS_def getProperty_def NUTRITION_DATA_def split: if_splits)
  have "w = of_int 40 \<or> w = of_int 70 \<or> w = of_int 120 \<or> w = of_int 45 \<or>
        w = of_int 100 \<or> w = of_int 60 \<or> w = of_int 50"
    using w by auto
  then show "\<exists>W. w = of_int W \<and> 0 < W \<and> W \<le> 120"
    by (elim disjE) (rule exI, (rule conjI, assumption, simp))+
qed

lemma bucket_weight:
  "toNumber (getProperty PORTION_GRAMS (getPortionFromArea a)) =
     Num (if js_less a (Num 0.10) then 75 else if js_less a (Num 0.25) then 100
          else if js_less a (Num 0.50) then 150 else 200)"
  by (simp add: getPortionFromArea_def getProperty_def PORTION_GRAMS_def)

text \<open>The grams and the description of a matched food.\<close>

lemma matched_portion:
  assumes "getProperty NUTRITION_DATA (replaceSpaces (toLowerCase foodName)) = Own p"
  shows "portion_grams (calculateNutrition foodName n a) =
           (case map_of COUNTABLE_FOODS (replaceSpaces (toLowerCase foodName)) of
              Some w \<Rightarrow> js_times (Num (of_nat n)) (Num w)
            | None \<Rightarrow> toNumber (getProperty PORTION_GRAMS (getPortionFromArea a)))"
    and "portion_size (calculateNutrition foodName n a) =
           (case map_of COUNTABLE_FOODS (replaceSpaces (toLowerCase foodName)) of
              Some w \<Rightarrow> numberToString n @ '' pieces''
            | None \<Rightarrow> getPortionFromArea a @ '' portion'')"
proof -
  let ?k = "replaceSpaces (toLowerCase foodName)"
  have ni: "?k \<notin> set Object_prototype"
    using matched_not_inherited(1) [OF assms] .
  have c: "getProperty COUNTABLE_FOODS ?k =
             (case map_of COUNTABLE_FOODS ?k of Some w \<Rightarrow> Own w | None \<Rightarrow> Undefined)"
    using ni by (simp add: getProperty_def split: option.splits)
  show "portion_grams (calculateNutrition foodName n a) =
           (case map_of COUNTABLE_FOODS ?k of
              Some w \<Rightarrow> js_times (Num (of_nat n)) (Num w)
            | None \<Rightarrow> toNumber (getProperty PORTION_GRAMS (getPortionFromArea a)))"
  proof (cases "map_of COUNTABLE_FOODS ?k")
    case None
    then show ?thesis
      using assms c by (simp add: calculateNutrition_def Let_def)
  next
    case (Some w)
    then show ?thesis
      using assms c countable_entry(1) [OF Some] by (simp add: calculateNutrition_def Let_def)
  qed
  show "portion_size (calculateNutrition foodName n a) =
           (case map_of COUNTABLE_FOODS ?k of
              Some w \<Rightarrow> numberToString n @ '' pieces''
            | None \<Rightarrow> getPortionFromArea a @ '' portion'')"
  proof (cases "map_of COUNTABLE_FOODS ?k")
    case None
    then show ?thesis
      using assms c by (simp add: calculateNutrition_def Let_def)
  next
    case (Some w)
    then show ?thesis
      using assms c countable_entry(1) [OF Some] by (simp add: calculateNutrition_def Let_def)
  qed
qed

lemma matched_macros:
  assumes "getProperty NUTRITION_DATA (replaceSpaces (toLowerCase foodName)) = Own p"
    and "multiplier = js_divide (portion_grams (calculateNutrition foodName n a)) (Num 100)"
  shows "calories (calculateNutrition foodName n a) =
           Math_round (js_times (Num (calories_per_100g p)) multiplier)"
    and "protein (calculateNutrition foodName n a) =
           js_divide (Math_round (js_times (js_times (Num (protein_g p)) multiplier) (Num 10)))
             (Num 10)"
    and "carbs (calculateNutrition foodName n a) =
           js_divide (Math_round (js_times (js_times (Num (carbs_g p)) multiplier) (Num 10)))
             (Num 10)"
    and "fat (calculateNutrition foodName n a) =
           js_divide (Math_round (js_times (js_times (Num (fat_g p)) multiplier) (Num 10)))
             (Num 10)"
  using assms
  by (simp_all add: calculateNutrition_def Let_def split: prod.splits)

lemma matched_constant:
  assumes "getProperty NUTRITION_DATA (replaceSpaces (toLowerCase foodName)) = Own p"
  shows "FoodItem.confidence (calculateNutrition foodName n a) = Num (dbl 0.85)"
  using assms by (simp add: calculateNutrition_def Let_def split: prod.splits)

lemma unknown_item:
  assumes "getProperty NUTRITION_DATA (replaceSpaces (toLowerCase foodName)) = Undefined"
  shows "calculateNutrition foodName n a = defaultItem foodName (Num 0.5)"
  using assms dbl_exact(3) by (simp add: calculateNutrition_def defaultItem_def)

subsection \<open>Decimal numerals\<close>

lemma digit_nth:
  assumes "k < 10"
  shows "of_char (''0123456789'' ! k) = 48 + k" and "''0123456789'' ! k \<in> set ''0123456789''"
    and "(''0123456789'' ! k = CHR ''0'') = (k = 0)"
proof -
  have "k \<in> {0, 1, 2, 3, 4, 5, 6, 7, 8, 9}"
    using assms by auto
  then show "of_char (''0123456789'' ! k) = 48 + k"
    and "''0123456789'' ! k \<in> set ''0123456789''"
    and "(''0123456789'' ! k = CHR ''0'') = (k = 0)"
    by auto
qed

lemma decimalValue_snoc: "decimalValue (s @ [c]) = 10 * decimalValue s + (of_char c - 48)"
  by (simp add: decimalValue_def)

lemma numberToString_decimal:
  "decimalValue (numberToString n) = n \<and> numberToString n \<noteq> [] \<and>
   set (numberToString n) \<subseteq> set ''0123456789'' \<and>
   (0 < n \<longrightarrow> hd (numberToString n) \<noteq> CHR ''0'')"
proof (induction n rule: numberToString.induct)
  case (1 n)
  show ?case
  proof (cases "n < 10")
    case True
    have s: "numberToString n = [''0123456789'' ! n]"
      using True by (subst numberToString.simps) simp
    have v: "decimalValue (numberToString n) = n"
      unfolding s using digit_nth(1) [OF True] by (simp add: decimalValue_def)
    have d: "set (numberToString n) \<subseteq> set ''0123456789''"
      unfolding s using digit_nth(2) [OF True] by (simp only: list.set insert_subset empty_subsetI)
    have "hd (numberToString n) = ''0123456789'' ! n"
      unfolding s by simp
    then have h: "0 < n \<longrightarrow> hd (numberToString n) \<noteq> CHR ''0''"
      using digit_nth(3) [OF True] by (simp only:) simp
    have "numberToString n \<noteq> []"
      unfolding s by simp
    with v d h show ?thesis
      by (intro conjI)
  next
    case False
    have m: "n mod 10 < 10"
      by simp
    have s: "numberToString n = numberToString (n div 10) @ [''0123456789'' ! (n mod 10)]"
      using False by (subst numberToString.simps) simp
    note c = 1 [OF False]
    have ih: "decimalValue (numberToString (n div 10)) = n div 10"
      "numberToString (n div 10) \<noteq> []"
      "set (numberToString (n div 10)) \<subseteq> set ''0123456789''"
      "0 < n div 10 \<longrightarrow> hd (numberToString (n div 10)) \<noteq> CHR ''0''"
      using c by (rule conjunct1, (rule conjunct2 [THEN conjunct1]),
          (rule conjunct2 [THEN conjunct2, THEN conjunct1]),
          (rule conjunct2 [THEN conjunct2, THEN conjunct2]))
    have pos: "0 < n div 10"
      using False by simp
    have v: "decimalValue (numberToString n) = n"
      unfolding s decimalValue_snoc ih(1) using digit_nth(1) [OF m] by simp
    have h: "hd (numberToString n) = hd (numberToString (n div 10))"
      unfolding s using ih(2) by simp
    have d: "set (numberToString n) \<subseteq> set ''0123456789''"
      unfolding s using ih(3) digit_nth(2) [OF m]
      by (simp only: set_append list.set Un_subset_iff insert_subset empty_subsetI)
    have "numberToString n \<noteq> []"
      unfolding s by simp
    moreover have "0 < n \<longrightarrow> hd (numberToString n) \<noteq> CHR ''0''"
      unfolding h using ih(4) pos by simp
    ultimately show ?thesis
      using v d by (intro conjI)
  qed
qed

subsection \<open>Grouping\<close>

lemma set_firstSeen [simp]: "set (firstSeen xs) = set xs"
  by (induction xs) auto

lemma distinct_firstSeen [simp]: "distinct (firstSeen xs)"
  by (induction xs) (auto simp: distinct_removeAll)

lemma firstSeen_snoc:
  "firstSeen (xs @ [x]) = (if x \<in> set xs then firstSeen xs else firstSeen xs @ [x])"
  by (induction xs) auto

lemma members_snoc:
  "members k (ds @ [d]) =
     members k ds @ (if foodKeyOf d = k then [(Detection.confidence d, area_ratio d)] else [])"
  by (simp add: members_def)

lemma members_empty: "k \<notin> foodKeyOf ` set ds \<Longrightarrow> members k ds = []"
  unfolding members_def by (induction ds) auto

lemma setProperty_new:
  "key \<notin> fst ` set obj \<Longrightarrow> setProperty obj key v = obj @ [(key, v)]"
  by (induction obj key v rule: setProperty.induct) auto

lemma setProperty_old:
  "key \<in> set ks \<Longrightarrow> distinct ks \<Longrightarrow>
   setProperty (map (\<lambda>k. (k, f k)) ks) key v = map (\<lambda>k. (k, if k = key then v else f k)) ks"
proof (induction ks)
  case Nil
  then show ?case by simp
next
  case (Cons a ks)
  show ?case
  proof (cases "a = key")
    case True
    then have "key \<notin> set ks" using Cons.prems by simp
    then have "map (\<lambda>k. (k, f k)) ks = map (\<lambda>k. (k, if k = key then v else f k)) ks"
      by (intro map_cong) auto
    with True show ?thesis by simp
  next
    case False
    with Cons show ?thesis by simp
  qed
qed

lemma map_of_groupsOf:
  "map_of (groupsOf ds) k = (if k \<in> foodKeyOf ` set ds then Some (members k ds) else None)"
proof -
  have "map_of (map (\<lambda>k. (k, members k ds)) ks) k = (if k \<in> set ks then Some (members k ds) else None)" for ks
    by (induction ks) auto
  from this [of "firstSeen (map foodKeyOf ds)"] show ?thesis
    by (simp add: groupsOf_def)
qed

lemma groupsOf_snoc:
  "groupsOf (ds @ [d]) =
     setProperty (groupsOf ds) (foodKeyOf d)
       (members (foodKeyOf d) ds @ [(Detection.confidence d, area_ratio d)])"
proof (cases "foodKeyOf d \<in> foodKeyOf ` set ds")
  case True
  then have "groupsOf (ds @ [d]) = map (\<lambda>k. (k, members k (ds @ [d]))) (firstSeen (map foodKeyOf ds))"
    by (simp add: groupsOf_def firstSeen_snoc)
  also have "\<dots> = map (\<lambda>k. (k, if k = foodKeyOf d
                 then members (foodKeyOf d) ds @ [(Detection.confidence d, area_ratio d)]
                 else members k ds)) (firstSeen (map foodKeyOf ds))"
    by (intro map_cong) (auto simp: members_snoc)
  also have "\<dots> = setProperty (groupsOf ds) (foodKeyOf d)
       (members (foodKeyOf d) ds @ [(Detection.confidence d, area_ratio d)])"
    unfolding groupsOf_def using True by (subst setProperty_old) auto
  finally show ?thesis .
next
  case False
  then have m: "members (foodKeyOf d) ds = []"
    by (rule members_empty)
  have "groupsOf (ds @ [d]) =
          map (\<lambda>k. (k, members k (ds @ [d]))) (firstSeen (map foodKeyOf ds)) @
          [(foodKeyOf d, members (foodKeyOf d) (ds @ [d]))]"
    using False by (simp add: groupsOf_def firstSeen_snoc)
  also have "map (\<lambda>k. (k, members k (ds @ [d]))) (firstSeen (map foodKeyOf ds)) = groupsOf ds"
    unfolding groupsOf_def using False by (intro map_cong) (auto simp: members_snoc)
  also have "members (foodKeyOf d) (ds @ [d]) = [(Detection.confidence d, area_ratio d)]"
    using m by (simp add: members_snoc)
  finally show ?thesis
    using False m by (subst setProperty_new) (auto simp: groupsOf_def)
qed

lemma groupDetections_snoc:
  "groupDetections g (xs @ [x]) =
     (case groupDetections g xs of Inl e \<Rightarrow> Inl e | Inr g' \<Rightarrow> addDetection g' x)"
  by (induction xs arbitrary: g) (auto split: sum.splits)

lemma firstFailure_snoc:
  "firstFailure (xs @ [x]) = (case firstFailure xs of Some e \<Rightarrow> Some e | None \<Rightarrow> failureOf x)"
  by (induction xs) (auto split: option.splits)

lemma labelled_snoc:
  "labelled (xs @ [x]) = labelled xs @ (case x of Unreadable \<Rightarrow> [] | Labelled d \<Rightarrow> [d])"
  by (induction xs rule: labelled.induct) (auto split: element.splits)

lemma labelled_map [simp]: "labelled (map Labelled ds) = ds"
  by (induction ds) auto

lemma firstFailure_None:
  assumes "firstFailure xs = None"
  shows "xs = map Labelled (labelled xs)"
    and "\<forall>d\<in>set (labelled xs). foodKeyOf d \<notin> set Object_prototype"
  using assms
  by (induction xs rule: labelled.induct) (auto split: option.splits if_splits)

lemma firstFailure_map:
  "firstFailure (map Labelled ds) =
     (if list_ex (\<lambda>d. foodKeyOf d \<in> set Object_prototype) ds then Some (Error (EngineText Push))
      else None)"
  by (induction ds) auto

lemma addDetection_groupsOf:
  "addDetection (groupsOf ds) (Labelled d) =
     (if foodKeyOf d \<in> foodKeyOf ` set ds \<or> foodKeyOf d \<notin> set Object_prototype
      then Inr (groupsOf (ds @ [d])) else Inl (Error (EngineText Push)))"
  by (auto simp: addDetection_def Let_def getProperty_def map_of_groupsOf groupsOf_snoc
      foodKeyOf_def [symmetric] members_empty)

lemma groupDetections_correct:
  "groupDetections [] xs =
     (case firstFailure xs of Some e \<Rightarrow> Inl e | None \<Rightarrow> Inr (groupsOf (labelled xs)))"
proof (induction xs rule: rev_induct)
  case Nil
  show ?case by (simp add: groupsOf_def)
next
  case (snoc x xs)
  show ?case
  proof (cases "firstFailure xs")
    case (Some e)
    then show ?thesis
      unfolding groupDetections_snoc snoc.IH firstFailure_snoc by simp
  next
    case None
    note keys = firstFailure_None(2) [OF None]
    show ?thesis
    proof (cases x)
      case Unreadable
      then show ?thesis
        unfolding groupDetections_snoc snoc.IH firstFailure_snoc
        using None by (simp add: addDetection_def)
    next
      case (Labelled d)
      then show ?thesis
        unfolding groupDetections_snoc snoc.IH firstFailure_snoc labelled_snoc
        using None keys by (auto simp: addDetection_groupsOf)
    qed
  qed
qed

lemma set_Object_entries: "set (Object_entries obj) = set obj"
  by (auto simp: Object_entries_def)

lemma length_Object_entries: "length (Object_entries obj) = length obj"
  by (simp add: Object_entries_def sum_length_filter_compl)

lemma Object_entries_plain:
  "list_all (\<lambda>p. \<not> isArrayIndex (fst p)) obj \<Longrightarrow> Object_entries obj = obj"
proof -
  assume a: "list_all (\<lambda>p. \<not> isArrayIndex (fst p)) obj"
  then have "filter (\<lambda>p. isArrayIndex (fst p)) obj = []"
    by (auto simp: filter_empty_conv list_all_iff)
  moreover have "filter (\<lambda>p. \<not> isArrayIndex (fst p)) obj = obj"
    using a by (auto simp: filter_id_conv list_all_iff)
  ultimately show ?thesis
    by (simp add: Object_entries_def)
qed

subsection \<open>Aggregation\<close>

lemma avgConfidence_js_mean: "avgConfidence ms = js_mean (map fst ms)"
proof -
  have "foldl (\<lambda>sum d. js_plus sum (fst d)) z ms = foldl js_plus z (map fst ms)" for z
    by (induction ms arbitrary: z) auto
  then show ?thesis
    by (simp add: avgConfidence_def js_mean_def)
qed

lemma foldl_js_max: "foldl js_max (Num a) (map Num rs) = Num (Max (set (a # rs)))"
proof (induction rs arbitrary: a)
  case Nil
  show ?case by simp
next
  case (Cons r rs)
  have "js_max (Num a) (Num r) = Num (max a r)"
    by (simp add: max_def)
  then have "foldl js_max (Num a) (map Num (r # rs)) = Num (Max (set (max a r # rs)))"
    using Cons.IH [of "max a r"] by simp
  also have "Max (set (max a r # rs)) = Max (set (a # r # rs))"
  proof (cases "rs = []")
    case True
    then show ?thesis by (simp add: max.commute)
  next
    case False
    then show ?thesis
      by (simp add: max.assoc max.commute max.left_commute)
  qed
  finally show ?case .
qed

lemma Math_max_numbers: "Math_max (map Num (r # rs)) = Num (Max (set (r # rs)))"
  by (simp add: Math_max_def foldl_js_max)

lemma js_max_commute: "js_max a b = js_max b a"
  by (cases a; cases b) auto

lemma js_max_assoc: "js_max (js_max a b) c = js_max a (js_max b c)"
  by (cases a; cases b; cases c) auto

lemma Math_max_mset:
  assumes "mset xs = mset ys"
  shows "Math_max xs = Math_max ys"
proof -
  have c: "(\<lambda>a. js_max a x) \<circ> (\<lambda>a. js_max a y) = (\<lambda>a. js_max a y) \<circ> (\<lambda>a. js_max a x)" for x y
    by (auto simp: fun_eq_iff js_max_assoc js_max_commute [of x y])
  have "fold (\<lambda>x a. js_max a x) xs = fold (\<lambda>x a. js_max a x) ys"
    using c assms by (intro fold_multiset_equiv) auto
  then show ?thesis
    by (simp add: Math_max_def foldl_conv_fold)
qed

lemma name_calculateNutrition [simp]: "name (calculateNutrition foodName n a) = foodName"
  by (simp add: calculateNutrition_def Let_def split: prod.splits)

lemma estimate_fields:
  "name (estimate g) = food_key g" "FoodItem.confidence (estimate g) = avg_confidence g"
  by (simp_all add: estimate_def Let_def)

lemma members_nonempty: "k \<in> foodKeyOf ` set ds \<Longrightarrow> members k ds \<noteq> []"
  by (auto simp: members_def filter_empty_conv)

lemma normalize_correct:
  "normalize_detections xs =
     (case firstFailure xs of
        Some e \<Rightarrow> Inl e
      | None \<Rightarrow> Inr (map normalize_group (Object_entries (groupsOf (labelled xs)))))"
  by (simp add: normalize_detections_def groupDetections_correct split: option.splits)

lemma recognize_correct:
  "recognize (Array xs) =
     (case firstFailure xs of
        Some e \<Rightarrow> Inl e
      | None \<Rightarrow>
          Inr (map (\<lambda>e. estimate (normalize_group e)) (Object_entries (groupsOf (labelled xs)))))"
  by (simp add: recognize_def normalize_correct split: option.splits)

lemma group_in_normalize:
  assumes "normalize_detections xs = Inr gs" and "g \<in> set gs"
  shows "food_key g \<in> foodKeyOf ` set (labelled xs)"
    and "count g = length (members (food_key g) (labelled xs))"
    and "avg_confidence g = js_mean (map fst (members (food_key g) (labelled xs)))"
    and "max_area_ratio g = Math_max (map snd (members (food_key g) (labelled xs)))"
    and "g = normalize_group (food_key g, members (food_key g) (labelled xs))"
proof -
  from assms obtain e where e: "e \<in> set (groupsOf (labelled xs))" and g: "g = normalize_group e"
    by (auto simp: normalize_correct set_Object_entries split: option.splits)
  from e have k: "fst e \<in> foodKeyOf ` set (labelled xs)"
    and m: "snd e = members (fst e) (labelled xs)"
    by (auto simp: groupsOf_def)
  show "food_key g \<in> foodKeyOf ` set (labelled xs)"
    using g k by (simp add: normalize_group_def)
  show "count g = length (members (food_key g) (labelled xs))"
    using g m by (simp add: normalize_group_def)
  show "avg_confidence g = js_mean (map fst (members (food_key g) (labelled xs)))"
    using g m by (simp add: normalize_group_def avgConfidence_js_mean)
  show "max_area_ratio g = Math_max (map snd (members (food_key g) (labelled xs)))"
    using g m by (simp add: normalize_group_def maxAreaRatio_def)
  show "g = normalize_group (food_key g, members (food_key g) (labelled xs))"
    using g m by (simp add: normalize_group_def)
qed

lemma group_of_key:
  assumes "firstFailure xs = None" and "k \<in> foodKeyOf ` set (labelled xs)"
  shows "\<exists>gs. normalize_detections xs = Inr gs \<and>
           normalize_group (k, members k (labelled xs)) \<in> set gs"
proof -
  have "(k, members k (labelled xs)) \<in> set (groupsOf (labelled xs))"
    using assms(2) by (auto simp: groupsOf_def)
  then show ?thesis
    using assms(1) by (simp add: normalize_correct set_Object_entries)
qed

lemma item_in_recognize:
  assumes "recognize (Array xs) = Inr foods" and "item \<in> set foods"
  shows "\<exists>gs g. normalize_detections xs = Inr gs \<and> g \<in> set gs \<and> item = estimate g"
  using assms by (auto simp: recognize_def split: sum.splits)

lemma serve_success:
  assumes "serve service now req = Inr response" and "payload response = Success items"
  shows "\<exists>img. req_json req = JsonObject (Some img) \<and> img \<noteq> [] \<and>
           recognize (runCNNDetection service img) = Inr (map snd items)"
proof -
  have sn: "snd \<circ> (\<lambda>(index, food). (food_id now index, food)) = snd"
    by (auto simp: fun_eq_iff)
  show ?thesis
    using assms
    by (auto simp: serve_def serve_try_def sn split: if_splits sum.splits request_json.splits
        option.splits)
qed

lemma recognize_Inr:
  assumes "recognize ds = Inr foods"
  shows "\<exists>xs. ds = Array xs \<and> firstFailure xs = None"
  using assms by (cases ds) (auto simp: recognize_def normalize_correct split: option.splits)

subsection \<open>Evaluation of the examples\<close>

lemma lower_chars:
  "toLowerChar (CHR ''a'') = CHR ''a''" "toLowerChar (CHR ''b'') = CHR ''b''"
  "toLowerChar (CHR ''c'') = CHR ''c''" "toLowerChar (CHR ''d'') = CHR ''d''"
  "toLowerChar (CHR ''e'') = CHR ''e''" "toLowerChar (CHR ''h'') = CHR ''h''"
  "toLowerChar (CHR ''i'') = CHR ''i''" "toLowerChar (CHR ''k'') = CHR ''k''"
  "toLowerChar (CHR ''l'') = CHR ''l''" "toLowerChar (CHR ''m'') = CHR ''m''"
  "toLowerChar (CHR ''n'') = CHR ''n''" "toLowerChar (CHR ''o'') = CHR ''o''"
  "toLowerChar (CHR ''p'') = CHR ''p''" "toLowerChar (CHR ''r'') = CHR ''r''"
  "toLowerChar (CHR ''s'') = CHR ''s''" "toLowerChar (CHR ''t'') = CHR ''t''"
  "toLowerChar (CHR ''u'') = CHR ''u''" "toLowerChar (CHR '' '') = CHR '' ''"
  "toLowerChar (CHR ''_'') = CHR ''_''" "toLowerChar (CHR ''A'') = CHR ''a''"
  "toLowerChar (CHR ''C'') = CHR ''c''" "toLowerChar (CHR ''H'') = CHR ''h''"
  "toLowerChar (CHR ''I'') = CHR ''i''" "toLowerChar (CHR ''P'') = CHR ''p''"
  "toLowerChar (CHR ''R'') = CHR ''r''" "toLowerChar (CHR ''S'') = CHR ''s''"
  "toLowerChar (CHR ''T'') = CHR ''t''"
  by (simp_all add: toLowerChar_def upperCase_def lowerCase_def)

lemma example_keys:
  "toLowerCase ''Idli'' = ''idli''" "toLowerCase ''idli'' = ''idli''"
  "toLowerCase ''Sambar'' = ''sambar''" "toLowerCase ''sambar'' = ''sambar''"
  "toLowerCase ''Chapathi'' = ''chapathi''" "toLowerCase ''chapathi'' = ''chapathi''"
  "toLowerCase ''CHAPATHI'' = ''chapathi''"
  "toLowerCase ''Pho'' = ''pho''" "toLowerCase ''pho'' = ''pho''"
  "toLowerCase ''Cooked Rice'' = ''cooked rice''" "toLowerCase ''cooked rice'' = ''cooked rice''"
  "toLowerCase ''cooked_rice'' = ''cooked_rice''"
  "toLowerCase ''Constructor'' = ''constructor''"
  "toLowerCase ''dal'' = ''dal''" "toLowerCase ''cucumber'' = ''cucumber''"
  by (simp_all add: toLowerCase_def lower_chars)

lemma example_spaces:
  "replaceSpaces ''idli'' = ''idli''" "replaceSpaces ''sambar'' = ''sambar''"
  "replaceSpaces ''chapathi'' = ''chapathi''" "replaceSpaces ''pho'' = ''pho''"
  "replaceSpaces ''cooked rice'' = ''cooked_rice''" "replaceSpaces ''cooked_rice'' = ''cooked_rice''"
  "replaceSpaces ''dal'' = ''dal''" "replaceSpaces ''cucumber'' = ''cucumber''"
  by (simp_all add: replaceSpaces.simps isSpace_def)

lemma example_profiles:
  "getProperty NUTRITION_DATA ''idli'' = Own (profile 58 12 2 0.4 60 ''Medium'')"
  "getProperty NUTRITION_DATA ''chapathi'' = Own (profile 299 46 7.9 9.2 45 ''Low'')"
  "getProperty NUTRITION_DATA ''dal'' = Own (profile 116 20 9 1 30 ''Low'')"
  "getProperty NUTRITION_DATA ''cucumber'' = Own (profile 15 3.6 0.7 0.1 15 ''Low'')"
  "getProperty NUTRITION_DATA ''cooked_rice'' = Own (profile 130 28 2.7 0.3 72 ''High'')"
  "getProperty NUTRITION_DATA ''pho'' = Undefined"
  by (simp_all add: getProperty_def NUTRITION_DATA_def Object_prototype_def)

lemma example_weights:
  "map_of COUNTABLE_FOODS ''idli'' = Some 40" "map_of COUNTABLE_FOODS ''chapathi'' = Some 45"
  "map_of COUNTABLE_FOODS ''dal'' = None" "map_of COUNTABLE_FOODS ''cucumber'' = None"
  by (simp_all add: COUNTABLE_FOODS_def)

lemmas key_defs = example_keys example_spaces

lemma dal_profile:
  "getProperty NUTRITION_DATA (replaceSpaces (toLowerCase ''dal'')) =
     Own (profile 116 20 9 1 30 ''Low'')"
  by (simp add: key_defs example_profiles)

lemma dal_not_countable: "map_of COUNTABLE_FOODS (replaceSpaces (toLowerCase ''dal'')) = None"
  by (simp add: key_defs example_weights)

lemma cucumber_profile:
  "getProperty NUTRITION_DATA (replaceSpaces (toLowerCase ''cucumber'')) =
     Own (profile 15 3.6 0.7 0.1 15 ''Low'')"
  by (simp add: key_defs example_profiles)

lemma chapathi_profile:
  "getProperty NUTRITION_DATA (replaceSpaces (toLowerCase ''chapathi'')) =
     Own (profile 299 46 7.9 9.2 45 ''Low'')"
  by (simp add: key_defs example_profiles)

lemma idli_countable: "map_of COUNTABLE_FOODS (replaceSpaces (toLowerCase ''idli'')) = Some 40"
  by (simp add: key_defs example_weights)

lemma pho_unknown: "getProperty NUTRITION_DATA (replaceSpaces (toLowerCase ''pho'')) = Undefined"
  by (simp add: key_defs example_profiles)

lemmas item_defs =
  key_defs example_weights profile_sel double_values floor_numeral_div getProperty_def
  PORTION_GRAMS_def
  getPortionFromArea_def numberToString.simps

lemma dal_item:
  "calculateNutrition ''dal'' n (Num (dbl 0.3)) =
     \<lparr>name = ''dal'', portion_size = ''Large portion'', portion_grams = Num 150,
      calories = Num 174, protein = Num 13.5, carbs = Num 30.0, fat = Num 1.5,
      confidence = Num (dbl 0.85)\<rparr>"
  by (rule FoodItem.equality)
    (simp_all add: matched_portion [OF dal_profile] matched_macros [OF dal_profile refl]
      matched_constant [OF dal_profile] item_defs)

lemma cucumber_item:
  "calculateNutrition ''cucumber'' n (Num (dbl 0.3)) =
     \<lparr>name = ''cucumber'', portion_size = ''Large portion'', portion_grams = Num 150,
      calories = Num 23, protein = Num 1, carbs = Num (dbl 5.4), fat = Num (dbl 0.2),
      confidence = Num (dbl 0.85)\<rparr>"
  by (rule FoodItem.equality)
    (simp_all add: matched_portion [OF cucumber_profile] matched_macros [OF cucumber_profile refl]
      matched_constant [OF cucumber_profile] item_defs)

lemma chapathi_item:
  "calculateNutrition ''chapathi'' 3 a = chapathiItem\<lparr>confidence := Num (dbl 0.85)\<rparr>"
  unfolding chapathiItem_def
  by (rule FoodItem.equality)
    (simp_all add: matched_portion [OF chapathi_profile] matched_macros [OF chapathi_profile refl]
      matched_constant [OF chapathi_profile] item_defs)

lemma foodKeyOf_detection: "foodKeyOf (detection label c a) = toLowerCase label"
  by (simp add: foodKeyOf_def detection_def)

lemmas group_defs =
  groupsOf_def members_def foodKeyOf_detection detection_def [symmetric] example_keys

lemmas aggregate_defs =
  normalize_correct firstFailure_map Object_entries_def isArrayIndex_def normalize_group_def
  avgConfidence_def maxAreaRatio_def Math_max_def Object_prototype_def foodKeyOf_detection
  example_keys double_values

lemma detection_fields:
  "Detection.confidence (detection label c a) = Num (dbl c)"
  "area_ratio (detection label c a) = Num (dbl a)"
  by (simp_all add: detection_def)

lemma meal_groups:
  "groupsOf meal =
     [(''chapathi'',
       [(Num (dbl 0.7), Num (dbl 0.2)), (Num (dbl 0.8), Num (dbl 0.1)),
        (Num (dbl 0.9), Num (dbl 0.2))]),
      (''pho'', [(Num (dbl 0.6), Num (dbl 0.3)), (Num (dbl 0.7), Num (dbl 0.4))])]"
  by (simp add: meal_def groupsOf_def members_def foodKeyOf_detection detection_fields
      example_keys)

lemma meal_keys:
  "\<not> list_ex (\<lambda>d. foodKeyOf d \<in> set Object_prototype) meal"
  "\<not> list_ex (\<lambda>d. isArrayIndex (foodKeyOf d)) meal"
  by (simp_all add: meal_def foodKeyOf_detection example_keys Object_prototype_def
      isArrayIndex_def)

lemma meal_normalized:
  "normalize_detections (map Labelled meal) =
     Inr [\<lparr>food_key = ''chapathi'', count = 3,
            avg_confidence = Num (7205759403792793 / 9007199254740992),
            max_area_ratio = Num (dbl 0.2)\<rparr>,
          \<lparr>food_key = ''pho'', count = 2,
            avg_confidence = Num (1463669878895411 / 2251799813685248),
            max_area_ratio = Num (dbl 0.4)\<rparr>]"
  by (simp add: normalize_correct firstFailure_map meal_keys meal_groups Object_entries_def
      isArrayIndex_def normalize_group_def avgConfidence_def maxAreaRatio_def Math_max_def
      double_values)

lemma meal_foods: "recognize (Array (map Labelled meal)) = Inr [chapathiItem, phoItem]"
  by (simp add: recognize_def meal_normalized estimate_def chapathi_item
      unknown_item [OF pho_unknown] defaultItem_def)
    (simp add: chapathiItem_def phoItem_def)

lemma meal_response:
  "serve mealService epoch examplePost =
     Inr \<lparr>status = 200,
          payload = Success [(''food_0_0'', chapathiItem), (''food_0_1'', phoItem)]\<rparr>"
  by (simp add: serve_def serve_try_def examplePost_def mealService_def runCNNDetection_def
      runCNNDetection_try_def meal_foods food_id_def enumerate_eq_zip upt_rec epoch_def
      numberToString.simps)

lemma meal_answer: "runCNNDetection mealService ''image'' = Array (map Labelled meal)"
  by (simp add: mealService_def runCNNDetection_def runCNNDetection_try_def)

lemma specExample_normalized:
  "normalize_detections (map Labelled specExample) =
     Inr [\<lparr>food_key = ''idli'', count = 2, avg_confidence = Num (dbl 0.90),
            max_area_ratio = Num (dbl 0.20)\<rparr>,
          \<lparr>food_key = ''sambar'', count = 1, avg_confidence = Num (dbl 0.87),
            max_area_ratio = Num (dbl 0.35)\<rparr>]"
proof -
  have "\<not> list_ex (\<lambda>d. foodKeyOf d \<in> set Object_prototype) specExample"
    by (simp add: specExample_def foodKeyOf_detection example_keys Object_prototype_def)
  moreover have "groupsOf specExample =
      [(''idli'', [(Num (dbl 0.92), Num (dbl 0.15)), (Num (dbl 0.88), Num (dbl 0.20))]),
       (''sambar'', [(Num (dbl 0.87), Num (dbl 0.35))])]"
    by (simp add: specExample_def groupsOf_def members_def foodKeyOf_detection detection_fields
        example_keys)
  ultimately show ?thesis
    by (simp add: normalize_correct firstFailure_map Object_entries_def isArrayIndex_def
        normalize_group_def avgConfidence_def maxAreaRatio_def Math_max_def double_values)
qed

lemma specExample_doubles: "\<forall>d\<in>set specExample. isDouble (Detection.confidence d)"
  by (simp add: specExample_def detection_fields isDouble_def double_values)

subsection \<open>The portion model\<close>

text \<open>
  C6. For a matched food that is not in the table of countable foods, the bucket of an area
  ratio \<open>r\<close> is Small below 0.10, Medium from 0.10 to below 0.25, Large from 0.25 to below
  0.50 and Very Large from 0.50 on, a ratio on a boundary going to the higher bucket; the
  grams are 75, 100, 150 and 200, and the description is the bucket followed by
  \<open>portion\<close>. The ratio 0.10 is Medium and 0.099 is Small. Nothing restricts \<open>r\<close>, so the
  statement holds on the interval from 0 to 1.
\<close>

theorem areaBucket_boundaries:
  assumes "getProperty NUTRITION_DATA (replaceSpaces (toLowerCase foodName)) = Own p"
    and "map_of COUNTABLE_FOODS (replaceSpaces (toLowerCase foodName)) = None"
  shows "getPortionFromArea (Num r) =
           (if r < 0.10 then ''Small'' else if r < 0.25 then ''Medium''
            else if r < 0.50 then ''Large'' else ''Very Large'') \<and>
         portion_grams (calculateNutrition foodName n (Num r)) =
           Num (if r < 0.10 then 75 else if r < 0.25 then 100 else if r < 0.50 then 150 else 200) \<and>
         portion_size (calculateNutrition foodName n (Num r)) =
           getPortionFromArea (Num r) @ '' portion'' \<and>
         getPortionFromArea (Num 0.10) = ''Medium'' \<and>
         getPortionFromArea (Num 0.099) = ''Small''"
proof -
  have "portion_grams (calculateNutrition foodName n (Num r)) =
          toNumber (getProperty PORTION_GRAMS (getPortionFromArea (Num r)))"
    using matched_portion(1) [OF assms(1), of n "Num r"] assms(2) by simp
  moreover have "portion_size (calculateNutrition foodName n (Num r)) =
          getPortionFromArea (Num r) @ '' portion''"
    using matched_portion(2) [OF assms(1), of n "Num r"] assms(2) by simp
  ultimately show ?thesis
    by (simp add: bucket_weight) (simp add: getPortionFromArea_def)
qed

theorem areaBucket_boundaries_witness:
  "getPortionFromArea (Num 0.3) = ''Large'' \<and>
   portion_grams (calculateNutrition ''dal'' 1 (Num 0.3)) = Num 150 \<and>
   portion_size (calculateNutrition ''dal'' 1 (Num 0.3)) = ''Large portion''"
  using areaBucket_boundaries [OF dal_profile dal_not_countable, of "0.3" 1]
  by simp

text \<open>
  C7. For every name whose normalized key is in the table of countable foods, with unit
  weight \<open>w\<close>, and every count of at least one (and below \<open>2^32\<close>, as the length of an
  array is), the grams are the count times \<open>w\<close>, exactly, and the description is the
  decimal numeral of the count, without a leading zero, followed by \<open>pieces\<close>. Three idlis
  of 40 grams each are 120 grams, described as \<open>3 pieces\<close>.
\<close>

theorem countable_grams:
  assumes "map_of COUNTABLE_FOODS (replaceSpaces (toLowerCase foodName)) = Some w"
    and "1 \<le> n" and "n < 2 ^ 32"
  shows "portion_grams (calculateNutrition foodName n a) = Num (of_nat n * w) \<and>
         (\<exists>s. portion_size (calculateNutrition foodName n a) = s @ '' pieces'' \<and> s \<noteq> [] \<and>
              set s \<subseteq> set ''0123456789'' \<and> hd s \<noteq> CHR ''0'' \<and> decimalValue s = n) \<and>
         map_of COUNTABLE_FOODS ''idli'' = Some 40 \<and>
         portion_grams (calculateNutrition ''idli'' 3 a) = Num 120 \<and>
         portion_size (calculateNutrition ''idli'' 3 a) = ''3 pieces''"
proof -
  have exact: "js_times (Num (of_nat k)) (Num v) = Num (of_nat k * v)"
    if v: "map_of COUNTABLE_FOODS key = Some v" and k: "k < 2 ^ 32" for k :: nat and v key
  proof -
    obtain W where W: "v = of_int W" "0 < W" "W \<le> 120"
      using countable_entry(3) [OF v] by blast
    have "int k * W \<le> int k * 120"
      using W by (simp add: mult_left_mono)
    also have "\<dots> < 2 ^ 32 * 120"
      using k by simp
    also have "\<dots> < (2 ^ 53 :: int)"
      by simp
    finally have "int k * W < 2 ^ 53" .
    moreover have "0 \<le> int k * W"
      using W by simp
    ultimately have "fl (of_int (int k * W)) = Num (of_int (int k * W))"
      by (intro fl_int)
    then show ?thesis
      using W by simp
  qed
  obtain p where p: "getProperty NUTRITION_DATA (replaceSpaces (toLowerCase foodName)) = Own p"
    using countable_entry(2) [OF assms(1)] by blast
  have g: "portion_grams (calculateNutrition foodName n a) = Num (of_nat n * w)"
    using matched_portion(1) [OF p, of n a] assms(1) exact [OF assms(1) assms(3)] by simp
  have "portion_size (calculateNutrition foodName n a) = numberToString n @ '' pieces''"
    using matched_portion(2) [OF p, of n a] assms(1) by simp
  moreover have "0 < n"
    using assms(2) by simp
  ultimately have s: "\<exists>s. portion_size (calculateNutrition foodName n a) = s @ '' pieces'' \<and>
      s \<noteq> [] \<and> set s \<subseteq> set ''0123456789'' \<and> hd s \<noteq> CHR ''0'' \<and> decimalValue s = n"
    using numberToString_decimal [of n] by blast
  obtain q where q: "getProperty NUTRITION_DATA (replaceSpaces (toLowerCase ''idli'')) = Own q"
    using countable_entry(2) [OF idli_countable] by blast
  have "js_times (Num (of_nat 3)) (Num 40) = Num (of_nat 3 * 40)"
    by (rule exact [OF idli_countable]) simp
  then have g3: "portion_grams (calculateNutrition ''idli'' 3 a) = Num 120"
    using matched_portion(1) [OF q, of 3 a] idli_countable by simp
  have s3: "portion_size (calculateNutrition ''idli'' 3 a) = ''3 pieces''"
    using matched_portion(2) [OF q, of 3 a] idli_countable by (simp add: numberToString.simps)
  have t: "map_of COUNTABLE_FOODS ''idli'' = Some 40"
    by (simp add: COUNTABLE_FOODS_def)
  show ?thesis
    by (intro conjI) (rule g s t g3 s3)+
qed

theorem countable_grams_witness:
  "map_of COUNTABLE_FOODS (replaceSpaces (toLowerCase ''Chapathi'')) = Some 45 \<and>
   (1::nat) \<le> 12 \<and> (12::nat) < 2 ^ 32 \<and>
   portion_grams (calculateNutrition ''Chapathi'' 12 NaN) = Num 540 \<and>
   (\<exists>s. portion_size (calculateNutrition ''Chapathi'' 12 NaN) = s @ '' pieces'' \<and> s \<noteq> [] \<and>
        set s \<subseteq> set ''0123456789'' \<and> hd s \<noteq> CHR ''0'' \<and> decimalValue s = 12)"
proof -
  have h: "map_of COUNTABLE_FOODS (replaceSpaces (toLowerCase ''Chapathi'')) = Some 45"
    by (simp add: key_defs example_weights)
  have n1: "(1::nat) \<le> 12" and n2: "(12::nat) < 2 ^ 32"
    by simp_all
  note t = countable_grams [OF h n1 n2, of NaN]
  have g: "portion_grams (calculateNutrition ''Chapathi'' 12 NaN) = Num 540"
    using t by simp
  show ?thesis
    by (intro conjI) (rule h n1 n2 g t [THEN conjunct2, THEN conjunct1])+
qed

subsection \<open>The estimator\<close>

text \<open>
  C8, as stated: protein, carbs and fat are the value per 100 g times the multiplier,
  rounded to one decimal. The table gives cucumber 0.7 g of protein per 100 g, and a large
  portion has 150 g: 0.7 times 1.5 is 1.05, which rounds to 1.1. The code computes in
  doubles, where the product times ten is 10.499999999999998, and returns 1.
\<close>

theorem estimator_rounding_counterexample:
  "getProperty NUTRITION_DATA ''cucumber'' = Own (profile 15 3.6 0.7 0.1 15 ''Low'') \<and>
   portion_grams (calculateNutrition ''cucumber'' 1 (Num (dbl 0.3))) = Num 150 \<and>
   protein (calculateNutrition ''cucumber'' 1 (Num (dbl 0.3))) = Num 1 \<and>
   round_1_decimal (0.7 * (150 / 100)) = 1.1"
  by (simp add: example_profiles cucumber_item round_1_decimal_def round_half_up_def)

text \<open>
  C8, amended. For every matched food the multiplier is the quotient of the grams by 100,
  the calories are the calories per 100 g times the multiplier, rounded to an integer with
  a tie going up, and protein, carbs and fat are the value per 100 g times the multiplier
  times ten, rounded to an integer in that way and divided by ten, where the table holds
  the doubles of its decimal numbers and every product and quotient is rounded to a
  double. For \<open>dal\<close> with area ratio 0.3 the result is 150 grams, 174 calories, 13.5
  protein, 30.0 carbs and 1.5 fat.
\<close>

theorem estimator_arithmetic:
  assumes "getProperty NUTRITION_DATA (replaceSpaces (toLowerCase foodName)) = Own p"
    and "multiplier = js_divide (portion_grams (calculateNutrition foodName n a)) (Num 100)"
  shows "calories (calculateNutrition foodName n a) =
           Math_round (js_times (Num (calories_per_100g p)) multiplier) \<and>
         protein (calculateNutrition foodName n a) =
           js_divide (Math_round (js_times (js_times (Num (protein_g p)) multiplier) (Num 10)))
             (Num 10) \<and>
         carbs (calculateNutrition foodName n a) =
           js_divide (Math_round (js_times (js_times (Num (carbs_g p)) multiplier) (Num 10)))
             (Num 10) \<and>
         fat (calculateNutrition foodName n a) =
           js_divide (Math_round (js_times (js_times (Num (fat_g p)) multiplier) (Num 10)))
             (Num 10) \<and>
         Math_round (Num x) = Num (of_int (round_half_up x)) \<and>
         calculateNutrition ''dal'' n (Num (dbl 0.3)) =
           \<lparr>name = ''dal'', portion_size = ''Large portion'', portion_grams = Num 150,
            calories = Num 174, protein = Num 13.5, carbs = Num 30.0, fat = Num 1.5,
            confidence = Num (dbl 0.85)\<rparr>"
  by (intro conjI) (rule matched_macros [OF assms] Math_round_half_up dal_item)+

theorem estimator_arithmetic_witness:
  "getProperty NUTRITION_DATA (replaceSpaces (toLowerCase ''dal'')) =
     Own (profile 116 20 9 1 30 ''Low'') \<and>
   Num 1.5 = js_divide (portion_grams (calculateNutrition ''dal'' 1 (Num (dbl 0.3)))) (Num 100) \<and>
   calories (calculateNutrition ''dal'' 1 (Num (dbl 0.3))) =
     Math_round (js_times (Num (calories_per_100g (profile 116 20 9 1 30 ''Low''))) (Num 1.5)) \<and>
   calories (calculateNutrition ''dal'' 1 (Num (dbl 0.3))) = Num 174 \<and>
   protein (calculateNutrition ''dal'' 1 (Num (dbl 0.3))) = Num 13.5"
proof -
  have m: "Num 1.5 =
      js_divide (portion_grams (calculateNutrition ''dal'' 1 (Num (dbl 0.3)))) (Num 100)"
    unfolding dal_item by (simp add: double_values)
  note t = estimator_arithmetic [OF dal_profile m]
  have c: "calories (calculateNutrition ''dal'' 1 (Num (dbl 0.3))) = Num 174"
    and p: "protein (calculateNutrition ''dal'' 1 (Num (dbl 0.3))) = Num 13.5"
    unfolding dal_item by simp_all
  show ?thesis
    by (intro conjI) (rule dal_profile m t [THEN conjunct1] c p)+
qed

text \<open>
  The estimator on a property that the tables only inherit: \<^verbatim>\<open>NUTRITION_DATA["constructor"]\<close>
  is the function \<^verbatim>\<open>Object\<close>, which is truthy, so the default item is not returned and every
  number computed from it is \<^verbatim>\<open>NaN\<close>.
\<close>

lemma inherited_key_estimate:
  "getProperty NUTRITION_DATA (replaceSpaces (toLowerCase ''constructor'')) = Inherited \<and>
   calculateNutrition ''constructor'' 1 (Num (dbl 0.3)) =
     \<lparr>name = ''constructor'', portion_size = ''1 pieces'', portion_grams = NaN, calories = NaN,
      protein = NaN, carbs = NaN, fat = NaN, confidence = Num (dbl 0.85)\<rparr>"
proof -
  have k: "replaceSpaces (toLowerCase ''constructor'') = ''constructor''"
    by (simp add: toLowerCase_def lower_chars replaceSpaces.simps isSpace_def)
  have i: "getProperty NUTRITION_DATA ''constructor'' = Inherited"
    "getProperty COUNTABLE_FOODS ''constructor'' = Inherited"
    by (simp_all add: getProperty_def table_defs)
  show ?thesis
    by (simp add: calculateNutrition_def k i js_inf_def numberToString.simps)
qed

text \<open>
  C3, as stated: the name of the default item is the original label of the detection. The
  handler passes the lower-cased label to the estimator, so the detection \<open>Pho\<close>, whose key
  is in no table, comes back under the name \<open>pho\<close>.
\<close>

theorem unknown_food_name_counterexample:
  "getProperty NUTRITION_DATA (replaceSpaces (toLowerCase ''Pho'')) = Undefined \<and>
   recognize (Array [Labelled (detection ''Pho'' 0.9 0.2)]) =
     Inr [defaultItem ''pho'' (Num (dbl 0.9))] \<and>
   name (defaultItem ''pho'' (Num (dbl 0.9))) \<noteq> ''Pho''"
proof -
  have u: "getProperty NUTRITION_DATA (replaceSpaces (toLowerCase ''Pho'')) = Undefined"
    by (simp add: key_defs example_profiles)
  have "firstFailure [Labelled (detection ''Pho'' 0.9 0.2)] = None"
    by (simp add: foodKeyOf_detection example_keys Object_prototype_def)
  moreover have "groupsOf [detection ''Pho'' 0.9 0.2] = [(''pho'', [(Num (dbl 0.9), Num (dbl 0.2))])]"
    by (simp add: groupsOf_def members_def foodKeyOf_detection detection_fields example_keys)
  ultimately have r: "recognize (Array [Labelled (detection ''Pho'' 0.9 0.2)]) =
      Inr [defaultItem ''pho'' (Num (dbl 0.9))]"
    by (simp add: recognize_correct Object_entries_def isArrayIndex_def estimate_def
        normalize_group_def avgConfidence_def maxAreaRatio_def Math_max_def
        unknown_item [OF pho_unknown] defaultItem_def double_values)
  have n: "name (defaultItem ''pho'' (Num (dbl 0.9))) \<noteq> ''Pho''"
    by (simp add: defaultItem_def)
  from u r n show ?thesis by blast
qed

text \<open>
  C3, amended. For every name whose normalized key is neither in the nutrition table nor
  inherited by it, the estimator returns exactly the fixed default item (1 portion, 100
  grams, 200 calories, protein 10, carbs 30, fat 5, confidence 0.5) under the name it was
  given, the same for every such key. In the handler that name is the lower-cased label of
  a detection, and the item it returns is the default with the confidence replaced by the
  mean confidence of the detections of that key, the mean as doubles give it.
\<close>

theorem unknown_food_default:
  assumes "getProperty NUTRITION_DATA (replaceSpaces (toLowerCase foodName)) = Undefined"
  shows "calculateNutrition foodName n a = defaultItem foodName (Num 0.5) \<and>
         (recognize (Array xs) = Inr foods \<longrightarrow> item \<in> set foods \<longrightarrow> name item = foodName \<longrightarrow>
            foodName \<in> foodKeyOf ` set (labelled xs) \<and>
            item = defaultItem foodName (js_mean (map fst (members foodName (labelled xs)))))"
proof -
  have d: "calculateNutrition foodName n a = defaultItem foodName (Num 0.5)" for n a
    using unknown_item [OF assms] .
  have "foodName \<in> foodKeyOf ` set (labelled xs) \<and>
        item = defaultItem foodName (js_mean (map fst (members foodName (labelled xs))))"
    if r: "recognize (Array xs) = Inr foods" and i: "item \<in> set foods"
      and nm: "name item = foodName"
  proof -
    obtain gs g where gs: "normalize_detections xs = Inr gs" and g: "g \<in> set gs"
      and e: "item = estimate g"
      using item_in_recognize [OF r i] by blast
    have k: "food_key g = foodName"
      using e nm by (simp add: estimate_fields)
    show ?thesis
      using group_in_normalize(1, 3) [OF gs g] k e d
      by (simp add: estimate_def defaultItem_def)
  qed
  with d show ?thesis by blast
qed

theorem unknown_food_default_witness:
  "getProperty NUTRITION_DATA (replaceSpaces (toLowerCase ''pho'')) = Undefined \<and>
   calculateNutrition ''pho'' 2 (Num (dbl 0.4)) = defaultItem ''pho'' (Num 0.5) \<and>
   recognize (Array (map Labelled meal)) = Inr [chapathiItem, phoItem] \<and>
   ''pho'' \<in> foodKeyOf ` set (labelled (map Labelled meal)) \<and>
   phoItem =
     defaultItem ''pho'' (js_mean (map fst (members ''pho'' (labelled (map Labelled meal)))))"
proof -
  have i: "phoItem \<in> set [chapathiItem, phoItem]"
    by simp
  have nm: "name phoItem = ''pho''"
    by (simp add: phoItem_def)
  note t = unknown_food_default [OF pho_unknown, of 2 "Num (dbl 0.4)" "map Labelled meal"
      "[chapathiItem, phoItem]" phoItem]
  have a: "calculateNutrition ''pho'' 2 (Num (dbl 0.4)) = defaultItem ''pho'' (Num 0.5)"
    using t by (rule conjunct1)
  have b: "''pho'' \<in> foodKeyOf ` set (labelled (map Labelled meal)) \<and>
           phoItem =
             defaultItem ''pho''
               (js_mean (map fst (members ''pho'' (labelled (map Labelled meal)))))"
    using t meal_foods i nm by blast
  show ?thesis
    by (intro conjI) (rule pho_unknown a meal_foods b [THEN conjunct1] b [THEN conjunct2])+
qed

subsection \<open>The detector adapter\<close>

text \<open>
  C4, as stated: the result of the adapter is never empty. A service that answers with
  success and an empty array of detections gets the empty array back.
\<close>

theorem adapter_nonempty_counterexample:
  "runCNNDetection emptyService ''image'' = Array [] \<and>
   emptyService ''image'' = Answer True (Some (ApiObject True (Some (Array []))))"
  by (simp add: runCNNDetection_def runCNNDetection_try_def emptyService_def)

text \<open>
  C4, amended. The adapter never raises: it is a total function, and an exception of its
  \<^verbatim>\<open>try\<close> block gives the fallback. For every image it returns the \<^verbatim>\<open>detections\<close> of the
  service when the service answers with an ok status, a JSON object, a truthy \<^verbatim>\<open>success\<close>
  and truthy \<^verbatim>\<open>detections\<close> (an array, which may be empty, or anything else that is
  truthy), and in every other case (network error, non-ok status, a body that is not JSON
  or is null, success false, no detections) the fixed list of three detections (Idli,
  0.92, 0.15), (Sambar, 0.87, 0.35), (Chapathi, 0.78, 0.20).
\<close>

theorem adapter_fallback:
  "runCNNDetection service img =
     (case service img of
        Answer True (Some (ApiObject True (Some ds))) \<Rightarrow> ds
      | _ \<Rightarrow>
          Array
            [Labelled \<lparr>food_name = ''Idli'', confidence = Num (dbl 0.92),
                       area_ratio = Num (dbl 0.15)\<rparr>,
             Labelled \<lparr>food_name = ''Sambar'', confidence = Num (dbl 0.87),
                       area_ratio = Num (dbl 0.35)\<rparr>,
             Labelled \<lparr>food_name = ''Chapathi'', confidence = Num (dbl 0.78),
                       area_ratio = Num (dbl 0.20)\<rparr>]) \<and>
   (case runCNNDetection_try service img of
      Inl e \<Rightarrow> runCNNDetection service img = Array (map Labelled mockCNNDetection)
    | Inr ds \<Rightarrow> runCNNDetection service img = ds) \<and>
   length mockCNNDetection = 3"
  by (simp add: runCNNDetection_def runCNNDetection_try_def mockCNNDetection_def
      split: fetch_result.splits option.splits api_result.splits bool.splits)

subsection \<open>Grouping and aggregation\<close>

text \<open>
  C2, as stated: detections are grouped by the key made by lower-casing, trimming and
  replacing spaces with underscores. The handler groups by the lower-cased label alone, so
  the labels \<open>Cooked Rice\<close> and \<open>cooked_rice\<close>, which have one key in the specification, are
  two groups of one detection each.
\<close>

theorem normalize_key_counterexample:
  "specKey ''Cooked Rice'' = specKey ''cooked_rice'' \<and>
   normalize_detections
     [Labelled (detection ''Cooked Rice'' 0.9 0.3), Labelled (detection ''cooked_rice'' 0.8 0.2)] =
   Inr [\<lparr>food_key = ''cooked rice'', count = 1, avg_confidence = Num (dbl 0.9),
          max_area_ratio = Num (dbl 0.3)\<rparr>,
        \<lparr>food_key = ''cooked_rice'', count = 1, avg_confidence = Num (dbl 0.8),
          max_area_ratio = Num (dbl 0.2)\<rparr>]"
proof -
  have s: "specKey ''Cooked Rice'' = specKey ''cooked_rice''"
    by (simp add: specKey_def trim_def example_keys isSpace_def)
  have "firstFailure
      [Labelled (detection ''Cooked Rice'' 0.9 0.3), Labelled (detection ''cooked_rice'' 0.8 0.2)] =
      None"
    by (simp add: foodKeyOf_detection example_keys Object_prototype_def)
  moreover have "groupsOf [detection ''Cooked Rice'' 0.9 0.3, detection ''cooked_rice'' 0.8 0.2] =
      [(''cooked rice'', [(Num (dbl 0.9), Num (dbl 0.3))]),
       (''cooked_rice'', [(Num (dbl 0.8), Num (dbl 0.2))])]"
    by (simp add: groupsOf_def members_def foodKeyOf_detection detection_fields example_keys)
  ultimately have "normalize_detections
     [Labelled (detection ''Cooked Rice'' 0.9 0.3), Labelled (detection ''cooked_rice'' 0.8 0.2)] =
   Inr [\<lparr>food_key = ''cooked rice'', count = 1, avg_confidence = Num (dbl 0.9),
          max_area_ratio = Num (dbl 0.3)\<rparr>,
        \<lparr>food_key = ''cooked_rice'', count = 1, avg_confidence = Num (dbl 0.8),
          max_area_ratio = Num (dbl 0.2)\<rparr>]"
    by (simp add: normalize_correct Object_entries_def isArrayIndex_def normalize_group_def
        avgConfidence_def maxAreaRatio_def Math_max_def double_values)
  with s show ?thesis by blast
qed

text \<open>
  C2, amended. The key of a detection is its lower-cased label, with no trimming and no
  replacement of spaces. For every list of detections none of whose keys is a property
  inherited from \<^verbatim>\<open>Object.prototype\<close> or an array index, the groups are those of the keys
  in the order of their first occurrence, and each group has the number of its detections
  as count, the mean of their confidences as average confidence (the sum taken in doubles
  from zero, in the order of the detections, and divided by the count) and the maximum of
  their area ratios as maximal area ratio. The detections (Idli, 0.92, 0.15), (Idli, 0.88,
  0.20), (Sambar, 0.87, 0.35) give the two groups idli (2, 0.90, 0.20) and sambar (1,
  0.87, 0.35).
\<close>

theorem normalize_groups:
  assumes "\<not> list_ex (\<lambda>d. foodKeyOf d \<in> set Object_prototype) ds"
    and "\<not> list_ex (\<lambda>d. isArrayIndex (foodKeyOf d)) ds"
  shows "normalize_detections (map Labelled ds) =
           Inr (map (\<lambda>k. \<lparr>food_key = k, count = length (members k ds),
                          avg_confidence = js_mean (map fst (members k ds)),
                          max_area_ratio = Math_max (map snd (members k ds))\<rparr>)
                  (firstSeen (map foodKeyOf ds))) \<and>
         foodKeyOf = (\<lambda>d. toLowerCase (food_name d)) \<and>
         Math_max (map Num (r # rs)) = Num (Max (set (r # rs))) \<and>
         normalize_detections (map Labelled specExample) =
           Inr [\<lparr>food_key = ''idli'', count = 2, avg_confidence = Num (dbl 0.90),
                  max_area_ratio = Num (dbl 0.20)\<rparr>,
                \<lparr>food_key = ''sambar'', count = 1, avg_confidence = Num (dbl 0.87),
                  max_area_ratio = Num (dbl 0.35)\<rparr>]"
proof -
  have plain: "list_all (\<lambda>p. \<not> isArrayIndex (fst p)) (groupsOf ds)"
    using assms(2) by (auto simp: list_all_iff list_ex_iff groupsOf_def)
  have "map normalize_group (groupsOf ds) =
          map (\<lambda>k. \<lparr>food_key = k, count = length (members k ds),
                     avg_confidence = js_mean (map fst (members k ds)),
                     max_area_ratio = Math_max (map snd (members k ds))\<rparr>)
            (firstSeen (map foodKeyOf ds))"
    unfolding groupsOf_def map_map
    by (intro map_cong refl) (simp add: normalize_group_def avgConfidence_js_mean maxAreaRatio_def)
  then have general: "normalize_detections (map Labelled ds) =
           Inr (map (\<lambda>k. \<lparr>food_key = k, count = length (members k ds),
                          avg_confidence = js_mean (map fst (members k ds)),
                          max_area_ratio = Math_max (map snd (members k ds))\<rparr>)
                  (firstSeen (map foodKeyOf ds)))"
    using assms(1) by (simp add: normalize_correct firstFailure_map Object_entries_plain [OF plain])
  have key: "foodKeyOf = (\<lambda>d. toLowerCase (food_name d))"
    by (simp add: fun_eq_iff foodKeyOf_def)
  show ?thesis
    by (intro conjI) (rule general key Math_max_numbers specExample_normalized)+
qed

theorem normalize_groups_witness:
  "\<not> list_ex (\<lambda>d. foodKeyOf d \<in> set Object_prototype) meal \<and>
   \<not> list_ex (\<lambda>d. isArrayIndex (foodKeyOf d)) meal \<and>
   normalize_detections (map Labelled meal) =
     Inr (map (\<lambda>k. \<lparr>food_key = k, count = length (members k meal),
                    avg_confidence = js_mean (map fst (members k meal)),
                    max_area_ratio = Math_max (map snd (members k meal))\<rparr>)
            (firstSeen (map foodKeyOf meal)))"
  by (intro conjI) (rule meal_keys normalize_groups [OF meal_keys, THEN conjunct1])+

text \<open>
  C9, as stated: the average confidence of a group does not depend on the order of its
  detections. The sum of doubles does: three idlis with the confidences 0.1, 0.2 and 0.3
  have the average 0.20000000000000004 in this order and 0.19999999999999998 in the
  opposite one.
\<close>

theorem permutation_average_counterexample:
  "mset descending = mset ascending \<and>
   normalize_detections (map Labelled ascending) =
     Inr [\<lparr>food_key = ''idli'', count = 3,
            avg_confidence = Num (7205759403792795 / 36028797018963968),
            max_area_ratio = Num (dbl 0.2)\<rparr>] \<and>
   normalize_detections (map Labelled descending) =
     Inr [\<lparr>food_key = ''idli'', count = 3,
            avg_confidence = Num (7205759403792793 / 36028797018963968),
            max_area_ratio = Num (dbl 0.2)\<rparr>]"
proof -
  have m: "mset descending = mset ascending"
    by (simp add: ascending_def descending_def)
  have "\<not> list_ex (\<lambda>d. foodKeyOf d \<in> set Object_prototype) ascending"
    by (simp add: ascending_def foodKeyOf_detection example_keys Object_prototype_def)
  moreover have "groupsOf ascending =
      [(''idli'', [(Num (dbl 0.1), Num (dbl 0.2)), (Num (dbl 0.2), Num (dbl 0.2)),
                   (Num (dbl 0.3), Num (dbl 0.2))])]"
    by (simp add: ascending_def groupsOf_def members_def foodKeyOf_detection detection_fields
        example_keys)
  ultimately have a: "normalize_detections (map Labelled ascending) =
     Inr [\<lparr>food_key = ''idli'', count = 3,
            avg_confidence = Num (7205759403792795 / 36028797018963968),
            max_area_ratio = Num (dbl 0.2)\<rparr>]"
    by (simp add: normalize_correct firstFailure_map Object_entries_def isArrayIndex_def
        normalize_group_def avgConfidence_def maxAreaRatio_def Math_max_def double_values)
  have "\<not> list_ex (\<lambda>d. foodKeyOf d \<in> set Object_prototype) descending"
    by (simp add: descending_def foodKeyOf_detection example_keys Object_prototype_def)
  moreover have "groupsOf descending =
      [(''idli'', [(Num (dbl 0.3), Num (dbl 0.2)), (Num (dbl 0.2), Num (dbl 0.2)),
                   (Num (dbl 0.1), Num (dbl 0.2))])]"
    by (simp add: descending_def groupsOf_def members_def foodKeyOf_detection detection_fields
        example_keys)
  ultimately have d: "normalize_detections (map Labelled descending) =
     Inr [\<lparr>food_key = ''idli'', count = 3,
            avg_confidence = Num (7205759403792793 / 36028797018963968),
            max_area_ratio = Num (dbl 0.2)\<rparr>]"
    by (simp add: normalize_correct firstFailure_map Object_entries_def isArrayIndex_def
        normalize_group_def avgConfidence_def maxAreaRatio_def Math_max_def double_values)
  from m a d show ?thesis by blast
qed

lemma mset_pair:
  assumes "mset xs = mset [a, b]"
  shows "xs = [a, b] \<or> xs = [b, a]"
proof -
  have "length xs = length [a, b]"
    using assms by (rule mset_eq_length)
  then obtain c d where xs: "xs = [c, d]"
    by (auto simp: length_Suc_conv)
  show ?thesis
    using assms unfolding xs by (auto simp: add_eq_conv_ex)
qed

lemma short_list:
  assumes "length ys \<le> 2"
  shows "ys = [] \<or> (\<exists>a. ys = [a]) \<or> (\<exists>a b. ys = [a, b])"
proof (cases ys)
  case Nil
  then show ?thesis by simp
next
  case (Cons a zs)
  show ?thesis
  proof (cases zs)
    case Nil
    with Cons show ?thesis by simp
  next
    case (Cons b ws)
    with \<open>ys = a # zs\<close> assms show ?thesis by simp
  qed
qed

lemma js_mean_mset:
  assumes "mset xs = mset ys" and "length ys \<le> 2" and "\<forall>v\<in>set ys. isDouble v"
  shows "js_mean xs = js_mean ys"
proof -
  consider "ys = []" | a where "ys = [a]" | a b where "ys = [a, b]"
    using short_list [OF assms(2)] by blast
  then show ?thesis
  proof cases
    case 1
    then show ?thesis using assms(1) by simp
  next
    case 2
    then show ?thesis using assms(1) by simp
  next
    case 3
    then have xs: "xs = [a, b] \<or> xs = [b, a]"
      using assms(1) by (simp add: mset_pair)
    have "isDouble a" "isDouble b"
      using assms(3) 3 by simp_all
    then have "js_plus (js_plus (Num 0) b) a = js_plus b a"
      and "js_plus (js_plus (Num 0) a) b = js_plus a b"
      by (simp_all only: js_plus_zero)
    then have "js_plus (js_plus (Num 0) b) a = js_plus (js_plus (Num 0) a) b"
      using js_plus_commute [of a b] by simp
    then show ?thesis
      using 3 xs by (auto simp: js_mean_def)
  qed
qed

text \<open>
  C9, amended. For every list of detections that the handler groups, and every permutation
  of it, each group of the one has a group of the same key in the other, with the same
  count and the same maximal area ratio; the average confidence is the same when the
  group has at most two detections whose confidences are doubles.
\<close>

theorem aggregates_under_permutation:
  assumes "mset ds' = mset ds"
    and "normalize_detections (map Labelled ds) = Inr gs"
    and "g \<in> set gs"
  shows "\<exists>gs' g'. normalize_detections (map Labelled ds') = Inr gs' \<and> g' \<in> set gs' \<and>
           food_key g' = food_key g \<and> count g' = count g \<and>
           max_area_ratio g' = max_area_ratio g \<and>
           (count g \<le> 2 \<and> (\<forall>d\<in>set ds. isDouble (Detection.confidence d)) \<longrightarrow>
              avg_confidence g' = avg_confidence g)"
proof -
  let ?k = "food_key g"
  have ok: "firstFailure (map Labelled ds) = None"
    using assms(2) by (auto simp: normalize_correct split: option.splits)
  have s: "set ds' = set ds"
    using assms(1) by (rule mset_eq_setD)
  have ok': "firstFailure (map Labelled ds') = None"
    using ok s by (simp add: firstFailure_map list_ex_iff split: if_splits)
  have k: "?k \<in> foodKeyOf ` set ds"
    using group_in_normalize(1) [OF assms(2, 3)] by simp
  have g: "g = normalize_group (?k, members ?k ds)"
    using group_in_normalize(5) [OF assms(2, 3)] by simp
  obtain gs' where gs': "normalize_detections (map Labelled ds') = Inr gs'"
    and g': "normalize_group (?k, members ?k ds') \<in> set gs'"
    using group_of_key [OF ok', of ?k] k s by auto
  have m: "mset (members ?k ds') = mset (members ?k ds)"
    using assms(1) by (simp add: members_def mset_filter)
  have c: "length (members ?k ds') = length (members ?k ds)"
    using m by (rule mset_eq_length)
  have "mset (map snd (members ?k ds')) = mset (map snd (members ?k ds))"
    using m by simp
  then have mx: "Math_max (map snd (members ?k ds')) = Math_max (map snd (members ?k ds))"
    by (rule Math_max_mset)
  have av: "js_mean (map fst (members ?k ds')) = js_mean (map fst (members ?k ds))"
    if "count g \<le> 2" and d: "\<forall>d\<in>set ds. isDouble (Detection.confidence d)"
  proof (rule js_mean_mset)
    show "mset (map fst (members ?k ds')) = mset (map fst (members ?k ds))"
      using m by simp
    show "length (map fst (members ?k ds)) \<le> 2"
      using that(1) g by (subst (asm) g) (simp add: normalize_group_def)
    show "\<forall>v\<in>set (map fst (members ?k ds)). isDouble v"
      using d by (auto simp: members_def)
  qed
  have "food_key (normalize_group (?k, members ?k ds')) = food_key g \<and>
        count (normalize_group (?k, members ?k ds')) = count g \<and>
        max_area_ratio (normalize_group (?k, members ?k ds')) = max_area_ratio g \<and>
        (count g \<le> 2 \<and> (\<forall>d\<in>set ds. isDouble (Detection.confidence d)) \<longrightarrow>
           avg_confidence (normalize_group (?k, members ?k ds')) = avg_confidence g)"
    using c mx av
    by (subst (2 3 4) g) (simp add: normalize_group_def maxAreaRatio_def avgConfidence_js_mean)
  with gs' g' show ?thesis by blast
qed

theorem aggregates_under_permutation_witness:
  "mset (rev specExample) = mset specExample \<and>
   normalize_detections (map Labelled specExample) =
     Inr [\<lparr>food_key = ''idli'', count = 2, avg_confidence = Num (dbl 0.90),
            max_area_ratio = Num (dbl 0.20)\<rparr>,
          \<lparr>food_key = ''sambar'', count = 1, avg_confidence = Num (dbl 0.87),
            max_area_ratio = Num (dbl 0.35)\<rparr>] \<and>
   (\<exists>gs' g'. normalize_detections (map Labelled (rev specExample)) = Inr gs' \<and> g' \<in> set gs' \<and>
      food_key g' = ''idli'' \<and> count g' = 2 \<and> max_area_ratio g' = Num (dbl 0.20) \<and>
      avg_confidence g' = Num (dbl 0.90))"
proof -
  let ?g = "\<lparr>food_key = ''idli'', count = 2, avg_confidence = Num (dbl 0.90),
            max_area_ratio = Num (dbl 0.20)\<rparr>"
  let ?h = "\<lparr>food_key = ''sambar'', count = 1, avg_confidence = Num (dbl 0.87),
            max_area_ratio = Num (dbl 0.35)\<rparr>"
  have m: "mset (rev specExample) = mset specExample"
    by simp
  have i: "?g \<in> set [?g, ?h]"
    by simp
  note t = aggregates_under_permutation [OF m specExample_normalized i]
  have "\<exists>gs' g'. normalize_detections (map Labelled (rev specExample)) = Inr gs' \<and>
      g' \<in> set gs' \<and> food_key g' = ''idli'' \<and> count g' = 2 \<and>
      max_area_ratio g' = Num (dbl 0.20) \<and> avg_confidence g' = Num (dbl 0.90)"
    using t specExample_doubles by simp
  with m specExample_normalized show ?thesis
    by blast
qed

subsection \<open>The confidence of a returned item\<close>

lemma success_items:
  assumes "serve service now req = Inr response" and "payload response = Success items"
    and "req_json req = JsonObject (Some img)" and "runCNNDetection service img = Array xs"
    and "(i, item) \<in> set items"
  shows "\<exists>gs g. normalize_detections xs = Inr gs \<and> g \<in> set gs \<and> item = estimate g"
proof -
  have r: "recognize (Array xs) = Inr (map snd items)"
    using serve_success [OF assms(1, 2)] assms(3, 4) by auto
  have "item \<in> set (map snd items)"
    using assms(5) by force
  then show ?thesis
    using item_in_recognize [OF r] by blast
qed

lemma meal_members:
  "members ''chapathi'' meal =
     [(Num (dbl 0.7), Num (dbl 0.2)), (Num (dbl 0.8), Num (dbl 0.1)),
      (Num (dbl 0.9), Num (dbl 0.2))]"
  "members ''pho'' meal = [(Num (dbl 0.6), Num (dbl 0.3)), (Num (dbl 0.7), Num (dbl 0.4))]"
  by (simp_all add: meal_def members_def foodKeyOf_detection detection_fields example_keys)

lemma meal_means:
  "js_mean [Num (dbl 0.7), Num (dbl 0.8), Num (dbl 0.9)] =
     Num (7205759403792793 / 9007199254740992)"
  "js_mean [Num (dbl 0.6), Num (dbl 0.7)] = Num (1463669878895411 / 2251799813685248)"
  by (simp_all add: js_mean_def double_values)

text \<open>
  C1. Every food item of a successful response whose normalized key is in the nutrition
  table is the estimator's item for one group of the detections with its confidence
  overwritten: the confidence returned is the average confidence of the group, the mean of
  the confidences of the detections merged into it (their sum in doubles, from zero and in
  the order of the detections, divided by their number), whereas the estimator itself had
  set it to the constant 0.85.
\<close>

theorem matched_confidence:
  assumes "serve service now req = Inr response" and "payload response = Success items"
    and "req_json req = JsonObject (Some img)" and "runCNNDetection service img = Array xs"
    and "(i, item) \<in> set items"
    and "getProperty NUTRITION_DATA (replaceSpaces (toLowerCase (name item))) = Own p"
  shows "\<exists>gs g. normalize_detections xs = Inr gs \<and> g \<in> set gs \<and> food_key g = name item \<and>
           item = (calculateNutrition (food_key g) (count g) (max_area_ratio g))
                    \<lparr>confidence := avg_confidence g\<rparr> \<and>
           FoodItem.confidence item = avg_confidence g \<and>
           avg_confidence g = js_mean (map fst (members (food_key g) (labelled xs))) \<and>
           FoodItem.confidence (calculateNutrition (food_key g) (count g) (max_area_ratio g)) =
             Num (dbl 0.85)"
proof -
  obtain gs g where gs: "normalize_detections xs = Inr gs" and g: "g \<in> set gs"
    and e: "item = estimate g"
    using success_items [OF assms(1-5)] by blast
  have k: "food_key g = name item"
    using e by (simp add: estimate_fields)
  have c: "FoodItem.confidence (calculateNutrition (food_key g) (count g) (max_area_ratio g)) =
             Num (dbl 0.85)"
    using assms(6) k by (simp add: matched_constant)
  have i: "item = (calculateNutrition (food_key g) (count g) (max_area_ratio g))
                    \<lparr>confidence := avg_confidence g\<rparr>"
    using e by (simp add: estimate_def)
  have f: "FoodItem.confidence item = avg_confidence g"
    using e by (simp add: estimate_fields)
  note m = group_in_normalize(3) [OF gs g]
  from gs g k i f m c show ?thesis
    by blast
qed

theorem matched_confidence_witness:
  "serve mealService epoch examplePost =
     Inr \<lparr>status = 200,
          payload = Success [(''food_0_0'', chapathiItem), (''food_0_1'', phoItem)]\<rparr> \<and>
   req_json examplePost = JsonObject (Some ''image'') \<and>
   runCNNDetection mealService ''image'' = Array (map Labelled meal) \<and>
   (''food_0_0'', chapathiItem) \<in> set [(''food_0_0'', chapathiItem), (''food_0_1'', phoItem)] \<and>
   getProperty NUTRITION_DATA (replaceSpaces (toLowerCase (name chapathiItem))) =
     Own (profile 299 46 7.9 9.2 45 ''Low'') \<and>
   FoodItem.confidence chapathiItem = js_mean [Num (dbl 0.7), Num (dbl 0.8), Num (dbl 0.9)] \<and>
   FoodItem.confidence chapathiItem = Num (7205759403792793 / 9007199254740992)"
proof -
  let ?items = "[(''food_0_0'', chapathiItem), (''food_0_1'', phoItem)]"
  have h2: "payload \<lparr>status = 200, payload = Success ?items\<rparr> = Success ?items"
    by simp
  have h3: "req_json examplePost = JsonObject (Some ''image'')"
    by (simp add: examplePost_def)
  have h5: "(''food_0_0'', chapathiItem) \<in> set ?items"
    by simp
  have h6: "getProperty NUTRITION_DATA (replaceSpaces (toLowerCase (name chapathiItem))) =
              Own (profile 299 46 7.9 9.2 45 ''Low'')"
    using chapathi_profile by (simp add: chapathiItem_def)
  from matched_confidence [OF meal_response h2 h3 meal_answer h5 h6]
  obtain gs where "\<exists>g. normalize_detections (map Labelled meal) = Inr gs \<and> g \<in> set gs \<and>
      food_key g = name chapathiItem \<and>
      chapathiItem = (calculateNutrition (food_key g) (count g) (max_area_ratio g))
                       \<lparr>confidence := avg_confidence g\<rparr> \<and>
      FoodItem.confidence chapathiItem = avg_confidence g \<and>
      avg_confidence g = js_mean (map fst (members (food_key g) (labelled (map Labelled meal)))) \<and>
      FoodItem.confidence (calculateNutrition (food_key g) (count g) (max_area_ratio g)) =
        Num (dbl 0.85)" ..
  then obtain g where all: "normalize_detections (map Labelled meal) = Inr gs \<and> g \<in> set gs \<and>
      food_key g = name chapathiItem \<and>
      chapathiItem = (calculateNutrition (food_key g) (count g) (max_area_ratio g))
                       \<lparr>confidence := avg_confidence g\<rparr> \<and>
      FoodItem.confidence chapathiItem = avg_confidence g \<and>
      avg_confidence g = js_mean (map fst (members (food_key g) (labelled (map Labelled meal)))) \<and>
      FoodItem.confidence (calculateNutrition (food_key g) (count g) (max_area_ratio g)) =
        Num (dbl 0.85)" ..
  have g: "food_key g = name chapathiItem"
    "FoodItem.confidence chapathiItem = avg_confidence g"
    "avg_confidence g = js_mean (map fst (members (food_key g) (labelled (map Labelled meal))))"
    using all by (rule conjunct2 [THEN conjunct2, THEN conjunct1],
        (rule conjunct2 [THEN conjunct2, THEN conjunct2, THEN conjunct2, THEN conjunct1]),
        (rule conjunct2 [THEN conjunct2, THEN conjunct2, THEN conjunct2, THEN conjunct2,
          THEN conjunct1]))
  have "food_key g = ''chapathi''"
    using g(1) by (simp add: chapathiItem_def)
  then have c: "FoodItem.confidence chapathiItem =
      js_mean [Num (dbl 0.7), Num (dbl 0.8), Num (dbl 0.9)]"
    using g(2, 3) by (simp add: meal_members)
  then have v: "FoodItem.confidence chapathiItem = Num (7205759403792793 / 9007199254740992)"
    by (simp only: meal_means)
  show ?thesis
    by (intro conjI) (rule meal_response h3 meal_answer h5 h6 c v)+
qed

text \<open>
  C10. Every food item of a successful response, matched or not, has the lower-cased label
  of a detection as its name and, as its confidence, the mean of the confidences of the
  detections with that key, as doubles give it; the confidence 0.5 that the estimator
  gives to an unknown food is overwritten like any other.
\<close>

theorem every_confidence_is_average:
  assumes "serve service now req = Inr response" and "payload response = Success items"
    and "req_json req = JsonObject (Some img)" and "runCNNDetection service img = Array xs"
    and "(i, item) \<in> set items"
  shows "name item \<in> foodKeyOf ` set (labelled xs) \<and>
         FoodItem.confidence item = js_mean (map fst (members (name item) (labelled xs))) \<and>
         (getProperty NUTRITION_DATA (replaceSpaces (toLowerCase (name item))) = Undefined \<longrightarrow>
            item = defaultItem (name item) (js_mean (map fst (members (name item) (labelled xs)))) \<and>
            FoodItem.confidence (calculateNutrition (name item) m a) = Num 0.5)"
proof -
  obtain gs g where gs: "normalize_detections xs = Inr gs" and g: "g \<in> set gs"
    and e: "item = estimate g"
    using success_items [OF assms] by blast
  have k: "name item = food_key g"
    using e by (simp add: estimate_fields)
  have a1: "name item \<in> foodKeyOf ` set (labelled xs)"
    using group_in_normalize(1) [OF gs g] k by simp
  have a2: "FoodItem.confidence item = js_mean (map fst (members (name item) (labelled xs)))"
    using group_in_normalize(3) [OF gs g] k e by (simp add: estimate_fields)
  have a3: "item = defaultItem (name item) (js_mean (map fst (members (name item) (labelled xs)))) \<and>
            FoodItem.confidence (calculateNutrition (name item) m a) = Num 0.5"
    if u: "getProperty NUTRITION_DATA (replaceSpaces (toLowerCase (name item))) = Undefined"
  proof -
    have d: "calculateNutrition (name item) n b = defaultItem (name item) (Num 0.5)" for n b
      using unknown_item [OF u] .
    show ?thesis
      using d e k a2 by (simp add: estimate_def defaultItem_def)
  qed
  from a1 a2 a3 show ?thesis by blast
qed

theorem every_confidence_is_average_witness:
  "serve mealService epoch examplePost =
     Inr \<lparr>status = 200,
          payload = Success [(''food_0_0'', chapathiItem), (''food_0_1'', phoItem)]\<rparr> \<and>
   req_json examplePost = JsonObject (Some ''image'') \<and>
   runCNNDetection mealService ''image'' = Array (map Labelled meal) \<and>
   (''food_0_1'', phoItem) \<in> set [(''food_0_0'', chapathiItem), (''food_0_1'', phoItem)] \<and>
   getProperty NUTRITION_DATA (replaceSpaces (toLowerCase (name phoItem))) = Undefined \<and>
   name phoItem \<in> foodKeyOf ` set meal \<and>
   FoodItem.confidence phoItem = js_mean [Num (dbl 0.6), Num (dbl 0.7)] \<and>
   phoItem = defaultItem ''pho'' (js_mean [Num (dbl 0.6), Num (dbl 0.7)]) \<and>
   js_mean [Num (dbl 0.6), Num (dbl 0.7)] = Num (1463669878895411 / 2251799813685248) \<and>
   FoodItem.confidence (calculateNutrition ''pho'' 2 (Num (dbl 0.4))) = Num 0.5"
proof -
  let ?items = "[(''food_0_0'', chapathiItem), (''food_0_1'', phoItem)]"
  have h2: "payload \<lparr>status = 200, payload = Success ?items\<rparr> = Success ?items"
    by simp
  have h3: "req_json examplePost = JsonObject (Some ''image'')"
    by (simp add: examplePost_def)
  have h5: "(''food_0_1'', phoItem) \<in> set ?items"
    by simp
  have nm: "name phoItem = ''pho''"
    by (simp add: phoItem_def)
  have u: "getProperty NUTRITION_DATA (replaceSpaces (toLowerCase (name phoItem))) = Undefined"
    unfolding nm by (rule pho_unknown)
  note t = every_confidence_is_average [OF meal_response h2 h3 meal_answer h5,
      of 2 "Num (dbl 0.4)"]
  have a1: "name phoItem \<in> foodKeyOf ` set meal"
    using t by simp
  have a2: "FoodItem.confidence phoItem = js_mean [Num (dbl 0.6), Num (dbl 0.7)]"
    using t by (simp add: nm meal_members)
  have a3: "phoItem = defaultItem ''pho'' (js_mean [Num (dbl 0.6), Num (dbl 0.7)])"
    and a4: "FoodItem.confidence (calculateNutrition ''pho'' 2 (Num (dbl 0.4))) = Num 0.5"
    using t u by (simp_all add: nm meal_members)
  show ?thesis
    by (intro conjI) (rule meal_response h3 meal_answer h5 u a1 a2 a3 meal_means(2) a4)+
qed

subsection \<open>The request handler\<close>

lemma broken_failure: "expectedFailure brokenService examplePost = Some (EngineText FoodName)"
  by (simp add: expectedFailure_def examplePost_def brokenService_def runCNNDetection_def
      runCNNDetection_try_def foodKeyOf_detection example_keys Object_prototype_def)

text \<open>
  A label that lower-cases to a property that every object inherits: the answer is a
  failure with the message of the error that \<^verbatim>\<open>push\<close> raises.
\<close>

lemma inherited_key_response:
  "serve oddService epoch examplePost =
     Inr \<lparr>status = 500, payload = Failure (EngineText Push)\<rparr>"
  by (simp add: serve_def serve_try_def examplePost_def oddService_def runCNNDetection_def
      runCNNDetection_try_def recognize_correct foodKeyOf_detection example_keys
      Object_prototype_def)

text \<open>
  C5. The handler never throws: for every detection service, clock and request it returns
  a response, whose status goes with its body (200 for the empty answer to a preflight
  request and for a list of foods, 400 for the missing image, 500 for a failure with
  success false and a message). A request other than a preflight is answered with a
  failure exactly when something raises inside the \<^verbatim>\<open>try\<close> block, and then with the message
  of that error: the body is not JSON, or is \<^verbatim>\<open>null\<close>; or what the adapter returned is
  no array; or an element of it has no string as label, or a label that lower-cases to an
  inherited property. Detection and estimation raise nothing. In every other case the
  answer is the missing image or the list of foods.
\<close>

theorem serve_never_throws:
  "\<exists>response. serve service now req = Inr response \<and>
     status response =
       (case payload response of
          NoBody \<Rightarrow> 200 | ErrorOnly m \<Rightarrow> 400 | Success items \<Rightarrow> 200 | Failure m \<Rightarrow> 500) \<and>
     (req_method req = ''OPTIONS'' \<longrightarrow> payload response = NoBody) \<and>
     (req_method req \<noteq> ''OPTIONS'' \<longrightarrow>
        (case expectedFailure service req of
           Some m \<Rightarrow> payload response = Failure m
         | None \<Rightarrow>
             payload response = ErrorOnly ''No image provided'' \<or>
             (\<exists>items. payload response = Success items)))"
  by (auto simp: serve_def serve_try_def expectedFailure_def recognize_def normalize_correct
      split: request_json.splits option.splits detections.splits sum.splits exception.splits)

theorem serve_never_throws_witness:
  "req_method examplePost \<noteq> ''OPTIONS'' \<and>
   expectedFailure brokenService examplePost = Some (EngineText FoodName) \<and>
   serve brokenService epoch examplePost =
     Inr \<lparr>status = 500, payload = Failure (EngineText FoodName)\<rparr>"
proof -
  have m: "req_method examplePost \<noteq> ''OPTIONS''"
    by (simp add: examplePost_def)
  obtain response where r: "serve brokenService epoch examplePost = Inr response"
    and s: "status response =
       (case payload response of
          NoBody \<Rightarrow> 200 | ErrorOnly m \<Rightarrow> 400 | Success items \<Rightarrow> 200 | Failure m \<Rightarrow> 500)"
    and p: "payload response = Failure (EngineText FoodName)"
    using serve_never_throws [of brokenService epoch examplePost] m
    by (auto simp: broken_failure)
  have "response = \<lparr>status = 500, payload = Failure (EngineText FoodName)\<rparr>"
    using s p by (cases response) simp
  with r have "serve brokenService epoch examplePost =
      Inr \<lparr>status = 500, payload = Failure (EngineText FoodName)\<rparr>"
    by simp
  with m broken_failure show ?thesis
    by blast
qed

end
